theory Spec2Isabelle
  imports Main
begin

section \<open>JavaScript strings, numbers and values\<close>

text \<open>
  The plugin is TypeScript. A JavaScript string is modelled as a \<open>string\<close> whose
  characters are the code units below 256 (the keyword, which \<open>encodeURIComponent\<close>
  treats differently beyond that range, is also modelled with all its code units, further
  down); a Number that holds an integer is modelled by that integer (\<open>NaN\<close> is the value
  \<open>None\<close> of \<open>parseInt\<close>, the only place where the plugin can meet it).

  \<open>parseInt\<close> below gives the mathematical integer that the digits denote. The Number
  the code works with is that integer itself as long as its magnitude is at most \<open>2^53\<close>;
  beyond, it is the nearest double, and its digits are printed differently. Rounding keeps
  the order and leaves 1 as it is, so the comparisons of the page with 1 are those of the
  code for every argument; what depends on the bound is the page as it is printed in a url.
  The theorems about a printed page carry the bound.
\<close>

subsection \<open>The built-in \<open>parseInt\<close> (ECMA-262, radix omitted)\<close>

definition isStrWhiteSpaceChar :: "char \<Rightarrow> bool" where
  "isStrWhiteSpaceChar c =
     (c \<in> set [CHR 0x09, CHR 0x0A, CHR 0x0B, CHR 0x0C, CHR 0x0D, CHR 0x20, CHR 0xA0])"

definition digitValue :: "char \<Rightarrow> nat option" where
  "digitValue c =
     (let n = (of_char c :: nat) in
      if 48 \<le> n \<and> n \<le> 57 then Some (n - 48)
      else if 97 \<le> n \<and> n \<le> 122 then Some (n - 87)
      else if 65 \<le> n \<and> n \<le> 90 then Some (n - 55)
      else None)"

definition isRadixDigit :: "nat \<Rightarrow> char \<Rightarrow> bool" where
  "isRadixDigit R c = (case digitValue c of None \<Rightarrow> False | Some d \<Rightarrow> d < R)"

definition digitOr0 :: "char \<Rightarrow> nat" where
  "digitOr0 c = (case digitValue c of None \<Rightarrow> 0 | Some d \<Rightarrow> d)"

definition parseInt :: "string \<Rightarrow> int option" where
  "parseInt inputString =
     (let S = dropWhile isStrWhiteSpaceChar inputString;
          sign = (if take 1 S = ''-'' then - 1 else (1::int));
          S1 = (if take 1 S = ''+'' \<or> take 1 S = ''-'' then drop 1 S else S);
          stripPrefix = (take 2 S1 = ''0x'' \<or> take 2 S1 = ''0X'');
          R = (if stripPrefix then 16 else 10);
          S2 = (if stripPrefix then drop 2 S1 else S1);
          Z = takeWhile (isRadixDigit R) S2
      in if Z = [] then None
         else Some (sign * int (foldl (\<lambda>a c. a * R + digitOr0 c) 0 Z)))"

text \<open>\<^verbatim>\<open>function parseIntSafe (value: string, fallback: number = 0): number\<close>\<close>

definition parseIntSafe :: "string \<Rightarrow> int \<Rightarrow> int" where
  "parseIntSafe val fallback =
     (case parseInt val of None \<Rightarrow> fallback | Some parsed \<Rightarrow> parsed)"

subsection \<open>Number to string, as string concatenation and template literals do it\<close>

text \<open>
  The decimal digits of an integer, with a minus sign when it is negative: what JavaScript
  prints for an integer Number of magnitude at most \<open>2^53\<close>.
\<close>

fun digitsOf :: "nat \<Rightarrow> string" where
  "digitsOf n =
     (if n < 10 then [char_of (48 + n)]
      else digitsOf (n div 10) @ [char_of (48 + n mod 10)])"

declare digitsOf.simps [simp del]

definition numberToString :: "int \<Rightarrow> string" where
  "numberToString n =
     (if n < 0 then CHR ''-'' # digitsOf (nat (- n)) else digitsOf (nat n))"

subsection \<open>The built-in \<open>encodeURIComponent\<close> on code units below 256\<close>

text \<open>
  On these strings there is no surrogate, so the built-in never throws, and a character
  takes one or two octets. The built-in on all code units follows in the section on
  keywords.
\<close>

definition uriUnreserved :: "char \<Rightarrow> bool" where
  "uriUnreserved c =
     (c \<in> set (''ABCDEFGHIJKLMNOPQRSTUVWXYZabcdefghijklmnopqrstuvwxyz''
                @ ''0123456789'' @ ''-_.!~*'()''))"

definition hexDigit :: "nat \<Rightarrow> char" where
  "hexDigit d = (if d < 10 then char_of (48 + d) else char_of (55 + d))"

definition percentByte :: "nat \<Rightarrow> string" where
  "percentByte b = [CHR ''%'', hexDigit (b div 16), hexDigit (b mod 16)]"

definition encodeChar :: "char \<Rightarrow> string" where
  "encodeChar c =
     (let n = (of_char c :: nat) in
      if uriUnreserved c then [c]
      else if n < 128 then percentByte n
      else percentByte (192 + n div 64) @ percentByte (128 + n mod 64))"

definition encodeURIComponent :: "string \<Rightarrow> string" where
  "encodeURIComponent s = concat (map encodeChar s)"

subsection \<open>Values that cross the plugin's dynamic boundaries\<close>

text \<open>
  What \<open>JSON.parse\<close> returns, what an evaluated script returns and what a \<open>throw\<close>
  carries is untyped at run time. \<open>JError m\<close> is an \<open>Error\<close> object whose
  \<open>message\<close> is \<open>m\<close>. Functions are not among these values: no object of the
  model has a callable property.
\<close>

datatype jsval =
    JUndefined
  | JNull
  | JBool bool
  | JNum int
  | JStr string
  | JArr "jsval list"
  | JObj "(string \<times> jsval) list"
  | JError string

text \<open>
  Truthiness of a value that is a string or \<open>undefined\<close> (the result of \<open>.attr\<close>),
  and the idiom \<open>x || ''\<close>.
\<close>

definition truthy :: "string option \<Rightarrow> bool" where
  "truthy x = (case x of None \<Rightarrow> False | Some s \<Rightarrow> s \<noteq> [])"

definition orEmpty :: "string option \<Rightarrow> string" where
  "orEmpty x = (case x of None \<Rightarrow> [] | Some s \<Rightarrow> if s \<noteq> [] then s else [])"

section \<open>The host and the libraries\<close>

record request =
  req_method :: string
  request_url :: string
  headers :: "(string \<times> string) list"

text \<open>
  Everything the plugin calls but does not define is a field of the environment: the host's
  \<open>window.Rulia.httpRequest\<close>, the document libraries (jQuery in the first variant of
  \<open>index.ts\<close>, cheerio in the second), \<open>JSON.parse\<close> and the evaluation of a
  \<open>new Function\<close> body. A result \<open>Inl v\<close> is the value \<open>v\<close> thrown (or a promise rejected
  with \<open>v\<close>). A matched set is the list of its nodes in the order of the set.

  \<^item> \<open>httpRequest\<close>: \<open>window.Rulia.httpRequest\<close>, awaited;
  \<^item> \<open>parseHTML\<close>: \<^verbatim>\<open>$($.parseHTML(x))\<close>, the matched set of the parsed nodes;
  \<^item> \<open>jQuery\<close>: \<^verbatim>\<open>$(rawStr)\<close> on a string;
  \<^item> \<open>load\<close>: cheerio's \<^verbatim>\<open>load(rawStr)\<close>, as the set its selections start from;
  \<^item> \<open>find_sel\<close>, \<open>children_sel\<close>: \<open>.find(selector)\<close> and \<open>.children(selector)\<close>;
  \<^item> \<open>node_text\<close>, \<open>node_attr\<close>: the text content and an attribute of one node;
  \<^item> \<open>JSON_parse\<close>: \<open>JSON.parse\<close>;
  \<^item> \<open>new_Function\<close>: \<^verbatim>\<open>new Function(body)()\<close>, construction and call together;
  \<^item> \<open>typeErrorMessage\<close>: the engine's message for the \<open>TypeError\<close> of reading a
    property of \<open>undefined\<close> or \<open>null\<close>, or of calling what is not a function;
  \<^item> \<open>uriErrorMessage\<close>: the engine's message for the \<open>URIError\<close> of
    \<open>encodeURIComponent\<close>.
\<close>

record 'n env =
  httpRequest :: "request \<Rightarrow> jsval + string"
  parseHTML :: "jsval \<Rightarrow> jsval + 'n list"
  jQuery :: "string \<Rightarrow> jsval + 'n list"
  load :: "string \<Rightarrow> jsval + 'n list"
  find_sel :: "string \<Rightarrow> 'n list \<Rightarrow> 'n list"
  children_sel :: "string \<Rightarrow> 'n list \<Rightarrow> 'n list"
  node_text :: "'n \<Rightarrow> string"
  node_attr :: "string \<Rightarrow> 'n \<Rightarrow> string option"
  JSON_parse :: "string \<Rightarrow> jsval + jsval"
  new_Function :: "string \<Rightarrow> jsval + jsval"
  typeErrorMessage :: "jsval \<Rightarrow> string \<Rightarrow> string"
  uriErrorMessage :: string

text \<open>
  \<open>.text()\<close> is the combined text of every node of the set; \<open>.attr(name)\<close> reads the
  first node of the set and is \<open>undefined\<close> on the empty set.
\<close>

definition text_of :: "'n env \<Rightarrow> 'n list \<Rightarrow> string" where
  "text_of E c = concat (map (node_text E) c)"

definition attr :: "'n env \<Rightarrow> string \<Rightarrow> 'n list \<Rightarrow> string option" where
  "attr E name c = (case c of [] \<Rightarrow> None | n # _ \<Rightarrow> node_attr E name n)"

text \<open>
  Reading a property that no built-in prototype defines (\<open>res\<close>, \<open>html\<close>, \<open>message\<close>):
  a \<open>TypeError\<close> on \<open>undefined\<close> and \<open>null\<close>, the field of an object, \<open>undefined\<close>
  otherwise.
\<close>

definition getProp :: "'n env \<Rightarrow> jsval \<Rightarrow> string \<Rightarrow> jsval + jsval" where
  "getProp E v p =
     (case v of
        JUndefined \<Rightarrow> Inl (JError (typeErrorMessage E v p))
      | JNull \<Rightarrow> Inl (JError (typeErrorMessage E v p))
      | JObj fs \<Rightarrow> Inr (case map_of fs p of None \<Rightarrow> JUndefined | Some x \<Rightarrow> x)
      | JError m \<Rightarrow> Inr (if p = ''message'' then JStr m else JUndefined)
      | _ \<Rightarrow> Inr JUndefined)"

section \<open>Results and host calls\<close>

record MangaSummary =
  title :: string
  url :: string
  coverUrl :: string

record IGetMangaListResult =
  list :: "MangaSummary list"

record ChapterRef =
  chapter_title :: string
  chapter_url :: string

record IGetMangaDataResult =
  data_title :: string
  description :: string
  data_coverUrl :: string
  chapterList :: "ChapterRef list"

record IRuliaChapterImage =
  image_url :: jsval
  width :: int
  height :: int

datatype payload =
    MangaListResult IGetMangaListResult
  | MangaDataResult IGetMangaDataResult
  | ChapterImageList "IRuliaChapterImage list"

datatype hostcall =
    AppToast string
  | AppToast_utf16 "nat list"
  | HttpRequest request
  | EndWithResult payload
  | EndWithException jsval

text \<open>
  One invocation of an operation is the list of host calls it makes, in order, and how the
  \<open>async\<close> function settles: \<open>None\<close> when it returns, \<open>Some v\<close> when \<open>v\<close> escapes it.
\<close>

type_synonym invocation = "hostcall list \<times> jsval option"

definition userAgent :: string where
  "userAgent = ''Mozilla/5.0 (Windows NT 10.0; Win64; x64) AppleWebKit/537.36 (KHTML, like Gecko) Chrome/122.0.0.0 Safari/537.36''"

definition cookie :: string where
  "cookie = ''fvt=1710871788; cf_clearance=c.OJYsmrGQB8.nTOvGTQz4mb3_IEJn6blKgedL7hcR8-1710871789-1.0.1.1-6nDbdoOy60oQocDFuyU0JdYJerYEf.DP0UwTebPywwvcWf7roin..XEFbZmXjBg0ycuI482suOnnpDYCAzn1KA''"

text \<open>
  \<^verbatim>\<open>catch (error) { window.Rulia.endWithException((error as Error).message) }\<close>
\<close>

definition catch_error :: "'n env \<Rightarrow> jsval \<Rightarrow> invocation" where
  "catch_error E error =
     (case getProp E error ''message'' of
        Inl e \<Rightarrow> ([], Some e)
      | Inr message \<Rightarrow> ([EndWithException message], None))"

text \<open>
  The frame every operation shares: inside \<open>try\<close>, await the request, run the rest of the
  body on the raw string and call \<open>endWithResult\<close> last; \<open>catch\<close> takes whatever was
  thrown on the way.
\<close>

definition fetch_try :: "'n env \<Rightarrow> request \<Rightarrow> (string \<Rightarrow> jsval + payload) \<Rightarrow> invocation" where
  "fetch_try E req body =
     (let r = (case httpRequest E req of
                 Inl error \<Rightarrow> catch_error E error
               | Inr rawStr \<Rightarrow>
                   (case body rawStr of
                      Inl error \<Rightarrow> catch_error E error
                    | Inr result \<Rightarrow> ([EndWithResult result], None)))
      in (HttpRequest req # fst r, snd r))"

section \<open>The operations of \<open>index.ts\<close>\<close>

subsection \<open>The list-item callback and its loop\<close>

text \<open>
  The body of \<^verbatim>\<open>$mangaList.each((_, el) => { ... })\<close>, the same text in
  \<open>handleMangaListSearch\<close> and in \<open>getMangaList\<close>: the record pushed for one
  element.
\<close>

definition listItem :: "'n env \<Rightarrow> 'n \<Rightarrow> MangaSummary" where
  "listItem E el =
     (let a = find_sel E ''.item-title'' [el];
          title = orEmpty (Some (text_of E a));
          url = (if truthy (attr E ''href'' a)
                 then ''https://mto.to'' @ orEmpty (attr E ''href'' a) else []);
          cover = find_sel E ''.item-cover img'' [el];
          coverSrc = orEmpty (attr E ''src'' cover)
      in \<lparr>title = title, url = url, coverUrl = coverSrc\<rparr>)"

definition mangaList_each :: "'n env \<Rightarrow> 'n list \<Rightarrow> IGetMangaListResult \<Rightarrow> IGetMangaListResult" where
  "mangaList_each E mangaList result =
     foldl (\<lambda>result el. result\<lparr>list := list result @ [listItem E el]\<rparr>) result mangaList"

definition seriesItems :: "'n env \<Rightarrow> 'n list \<Rightarrow> 'n list" where
  \<comment> \<open>\<^verbatim>\<open>$document.find('#series-list').children('.item')\<close>\<close>
  "seriesItems E document = children_sel E ''.item'' (find_sel E ''#series-list'' document)"

subsection \<open>\<open>handleMangaListSearch\<close>\<close>

definition searchRequest :: "int \<Rightarrow> string \<Rightarrow> request" where
  "searchRequest page keyword =
     \<lparr>req_method = ''GET'',
      request_url = ''https://mto.to/search?word='' @ encodeURIComponent keyword
                    @ ''&page='' @ numberToString page,
      headers = [(''Cookie'', cookie), (''User-Agent'', userAgent)]\<rparr>"

definition handleMangaListSearch :: "'n env \<Rightarrow> int \<Rightarrow> string \<Rightarrow> invocation" where
  "handleMangaListSearch E page keyword =
     fetch_try E (searchRequest page keyword)
       (\<lambda>rawStr.
          case jQuery E rawStr of
            Inl error \<Rightarrow> Inl error
          | Inr document \<Rightarrow>
              Inr (MangaListResult (mangaList_each E (seriesItems E document) \<lparr>list = []\<rparr>)))"

subsection \<open>\<open>getMangaList\<close>\<close>

definition listing_url :: "int \<Rightarrow> string" where
  "listing_url page =
     (let url = ''https://mto.to/latest''
      in if page > 1 then url @ ''?page='' @ numberToString page else url)"

definition listRequest :: "string \<Rightarrow> request" where
  "listRequest target =
     \<lparr>req_method = ''GET'', request_url = target,
      headers = [(''Cookie'', cookie), (''User-Agent'', userAgent)]\<rparr>"

text \<open>The \<open>$document\<close> of the listing: the branch on \<open>page <= 1\<close>.\<close>

definition listDocument :: "'n env \<Rightarrow> int \<Rightarrow> string \<Rightarrow> jsval + 'n list" where
  "listDocument E page rawStr =
     (if page \<le> 1 then parseHTML E (JStr rawStr)
      else (case JSON_parse E rawStr of
              Inl error \<Rightarrow> Inl error
            | Inr response \<Rightarrow>
                (case getProp E response ''res'' of
                   Inl error \<Rightarrow> Inl error
                 | Inr res \<Rightarrow>
                     (case getProp E res ''html'' of
                        Inl error \<Rightarrow> Inl error
                      | Inr html \<Rightarrow> parseHTML E html))))"

definition getMangaList ::
  "'n env \<Rightarrow> string \<Rightarrow> string \<Rightarrow> string option \<Rightarrow> string option \<Rightarrow> invocation" where
  "getMangaList E rawPage rawPageSize keyword rawFilterOptions =
     (let page = parseIntSafe rawPage 1;
          toast = AppToast (''Request page '' @ rawPage @ '', keyword: ''
                            @ (case keyword of None \<Rightarrow> ''undefined'' | Some k \<Rightarrow> k))
      in if truthy keyword
         then (let r = handleMangaListSearch E page (orEmpty keyword)
               in (toast # fst r, snd r))
         else (let url = listing_url page;
                   r = fetch_try E (listRequest url)
                         (\<lambda>rawStr.
                            case listDocument E page rawStr of
                              Inl error \<Rightarrow> Inl error
                            | Inr document \<Rightarrow>
                                Inr (MangaListResult
                                       (mangaList_each E (seriesItems E document) \<lparr>list = []\<rparr>)))
               in (toast # AppToast url # fst r, snd r)))"

subsection \<open>\<open>getMangaData\<close>\<close>

definition chapterItem :: "'n env \<Rightarrow> 'n \<Rightarrow> ChapterRef" where
  "chapterItem E el =
     (let a = find_sel E ''.chapt'' [el];
          title = orEmpty (Some (text_of E a));
          url = (if truthy (attr E ''href'' a)
                 then ''https://mto.to'' @ orEmpty (attr E ''href'' a) else [])
      in \<lparr>chapter_title = title, chapter_url = url\<rparr>)"

definition episodeList_each :: "'n env \<Rightarrow> 'n list \<Rightarrow> IGetMangaDataResult \<Rightarrow> IGetMangaDataResult" where
  "episodeList_each E episodeList result =
     foldl (\<lambda>result el. result\<lparr>chapterList := chapterList result @ [chapterItem E el]\<rparr>)
       result episodeList"

definition mangaData :: "'n env \<Rightarrow> 'n list \<Rightarrow> IGetMangaDataResult" where
  "mangaData E document =
     (let result = \<lparr>data_title = [], description = [], data_coverUrl = [], chapterList = []\<rparr>;
          titleText = orEmpty (Some (text_of E (find_sel E ''.item-title'' document)));
          result = result\<lparr>data_title := titleText\<rparr>;
          descText = orEmpty (Some (text_of E
                       (find_sel E ''#limit-height-body-summary .limit-html'' document)));
          result = result\<lparr>description := descText\<rparr>;
          coverImg = children_sel E ''img'' (find_sel E ''.attr-cover'' document);
          coverUrl = orEmpty (attr E ''src'' coverImg);
          result = result\<lparr>data_coverUrl := coverUrl\<rparr>;
          episodeList = children_sel E ''.item'' (find_sel E ''.episode-list .main'' document)
      in episodeList_each E episodeList result)"

definition pageRequest :: "string \<Rightarrow> request" where
  "pageRequest pageUrl =
     \<lparr>req_method = ''GET'', request_url = pageUrl,
      headers = [(''Cookie'', cookie), (''User-Agent'', userAgent)]\<rparr>"

definition getMangaData :: "'n env \<Rightarrow> string \<Rightarrow> invocation" where
  "getMangaData E dataPageUrl =
     fetch_try E (pageRequest dataPageUrl)
       (\<lambda>rawStr.
          case parseHTML E (JStr rawStr) of
            Inl error \<Rightarrow> Inl error
          | Inr document \<Rightarrow> Inr (MangaDataResult (mangaData E document)))"

subsection \<open>\<open>getChapterImageList\<close>\<close>

text \<open>
  \<^verbatim>\<open>let scriptText = ''; $document.find('script').each((_, el) => { const text = $(el).text();
  if (text.length >= scriptText.length) { scriptText = text } })\<close>
\<close>

definition longestScript :: "'n env \<Rightarrow> 'n list \<Rightarrow> string" where
  "longestScript E scripts =
     foldl (\<lambda>scriptText el.
              let text = text_of E [el]
              in if length text \<ge> length scriptText then text else scriptText)
       [] scripts"

text \<open>
  \<^verbatim>\<open>imgHttps.map(url => ({ url, width: 1, height: 1 }))\<close> on whatever the script returned:
  an array is mapped, anything else has no callable \<open>map\<close>.
\<close>

definition imgHttps_map :: "'n env \<Rightarrow> jsval \<Rightarrow> jsval + IRuliaChapterImage list" where
  "imgHttps_map E imgHttps =
     (case imgHttps of
        JArr urls \<Rightarrow> Inr (map (\<lambda>url. \<lparr>image_url = url, width = 1, height = 1\<rparr>) urls)
      | _ \<Rightarrow> Inl (JError (typeErrorMessage E imgHttps ''map'')))"

definition chapterImages :: "'n env \<Rightarrow> 'n list \<Rightarrow> jsval + payload" where
  "chapterImages E document =
     (let scriptText = longestScript E (find_sel E ''script'' document)
      in case new_Function E (scriptText @ '';return imgHttps;'') of
           Inl error \<Rightarrow> Inl error
         | Inr imgHttps \<Rightarrow>
             (case imgHttps_map E imgHttps of
                Inl error \<Rightarrow> Inl error
              | Inr result \<Rightarrow> Inr (ChapterImageList result)))"

definition getChapterImageList :: "'n env \<Rightarrow> string \<Rightarrow> invocation" where
  "getChapterImageList E chapterUrl =
     fetch_try E (pageRequest chapterUrl)
       (\<lambda>rawStr.
          case parseHTML E (JStr rawStr) of
            Inl error \<Rightarrow> Inl error
          | Inr document \<Rightarrow> chapterImages E document)"

text \<open>
  The second variant of the file (cheerio) sends no headers and reads the document with
  \<open>load\<close>; its script loop and its evaluation are the same text. Which script elements
  a parsed document still holds is the library's matter, and so the environment's.
\<close>

definition plainRequest :: "string \<Rightarrow> request" where
  "plainRequest pageUrl = \<lparr>req_method = ''GET'', request_url = pageUrl, headers = []\<rparr>"

definition getChapterImageList_cheerio :: "'n env \<Rightarrow> string \<Rightarrow> invocation" where
  "getChapterImageList_cheerio E chapterUrl =
     fetch_try E (plainRequest chapterUrl)
       (\<lambda>rawStr.
          case load E rawStr of
            Inl error \<Rightarrow> Inl error
          | Inr document \<Rightarrow> chapterImages E document)"

subsection \<open>\<open>getImageUrl\<close>\<close>

definition getImageUrl :: "string \<Rightarrow> string" where
  "getImageUrl path = path"

section \<open>Keywords of any code units\<close>

text \<open>
  A keyword is typed by the user and may hold any UTF-16 code units. On such a string
  \<open>encodeURIComponent\<close> does what it cannot do on code units below 256: it writes three
  and four octets for one code point, and it throws a \<open>URIError\<close> at a surrogate without
  its partner. The search pipeline and the list operation are therefore given a second
  time for a keyword that is a list of code units (numbers below \<open>2^16\<close>); on a keyword
  of code units below 256 they are the operations above.
\<close>

type_synonym codeunits = "nat list"

definition utf16 :: "string \<Rightarrow> codeunits" where
  "utf16 s = map of_char s"

definition isLeadingSurrogate :: "nat \<Rightarrow> bool" where
  "isLeadingSurrogate u = (0xD800 \<le> u \<and> u \<le> 0xDBFF)"

definition isTrailingSurrogate :: "nat \<Rightarrow> bool" where
  "isTrailingSurrogate u = (0xDC00 \<le> u \<and> u \<le> 0xDFFF)"

definition utf8Octets :: "nat \<Rightarrow> nat list" where
  "utf8Octets cp =
     (if cp < 0x80 then [cp]
      else if cp < 0x800 then [0xC0 + cp div 0x40, 0x80 + cp mod 0x40]
      else if cp < 0x10000
      then [0xE0 + cp div 0x1000, 0x80 + cp div 0x40 mod 0x40, 0x80 + cp mod 0x40]
      else [0xF0 + cp div 0x40000, 0x80 + cp div 0x1000 mod 0x40,
            0x80 + cp div 0x40 mod 0x40, 0x80 + cp mod 0x40])"

definition percentOctets :: "nat \<Rightarrow> string" where
  "percentOctets cp = concat (map percentByte (utf8Octets cp))"

text \<open>
  The built-in \<open>encodeURIComponent\<close> (ECMA-262, \<open>Encode\<close>), code unit by code unit:
  an unreserved character stays; otherwise the code point at this position is percent-encoded
  in UTF-8, a surrogate pair as one code point; \<open>None\<close> is the \<open>URIError\<close> thrown at an
  unpaired surrogate.
\<close>

fun encodeURIComponent_utf16 :: "codeunits \<Rightarrow> string option" where
  "encodeURIComponent_utf16 [] = Some []"
| "encodeURIComponent_utf16 (C # rest) =
     (if C < 128 \<and> uriUnreserved (char_of C)
      then map_option ((#) (char_of C)) (encodeURIComponent_utf16 rest)
      else if isTrailingSurrogate C then None
      else if isLeadingSurrogate C
      then (case rest of
              [] \<Rightarrow> None
            | second # rest' \<Rightarrow>
                if isTrailingSurrogate second
                then map_option
                       ((@) (percentOctets ((C - 0xD800) * 0x400 + (second - 0xDC00) + 0x10000)))
                       (encodeURIComponent_utf16 rest')
                else None)
      else map_option ((@) (percentOctets C)) (encodeURIComponent_utf16 rest))"

definition searchRequest_word :: "int \<Rightarrow> string \<Rightarrow> request" where
  "searchRequest_word page word =
     \<lparr>req_method = ''GET'',
      request_url = ''https://mto.to/search?word='' @ word @ ''&page='' @ numberToString page,
      headers = [(''Cookie'', cookie), (''User-Agent'', userAgent)]\<rparr>"

text \<open>
  \<open>handleMangaListSearch\<close>: the url of the request is built inside \<open>try\<close>, so a
  \<open>URIError\<close> is caught before any request is sent.
\<close>

definition handleMangaListSearch_utf16 :: "'n env \<Rightarrow> int \<Rightarrow> codeunits \<Rightarrow> invocation" where
  "handleMangaListSearch_utf16 E page keyword =
     (case encodeURIComponent_utf16 keyword of
        None \<Rightarrow> catch_error E (JError (uriErrorMessage E))
      | Some word \<Rightarrow>
          fetch_try E (searchRequest_word page word)
            (\<lambda>rawStr.
               case jQuery E rawStr of
                 Inl error \<Rightarrow> Inl error
               | Inr document \<Rightarrow>
                   Inr (MangaListResult
                          (mangaList_each E (seriesItems E document) \<lparr>list = []\<rparr>))))"

text \<open>\<open>getMangaList\<close>, its first toast now a string of code units.\<close>

definition getMangaList_utf16 ::
  "'n env \<Rightarrow> string \<Rightarrow> string \<Rightarrow> codeunits option \<Rightarrow> string option \<Rightarrow> invocation" where
  "getMangaList_utf16 E rawPage rawPageSize keyword rawFilterOptions =
     (let page = parseIntSafe rawPage 1;
          toast = AppToast_utf16 (utf16 ''Request page '' @ utf16 rawPage @ utf16 '', keyword: ''
                                  @ (case keyword of None \<Rightarrow> utf16 ''undefined'' | Some k \<Rightarrow> k))
      in if (case keyword of None \<Rightarrow> False | Some k \<Rightarrow> k \<noteq> [])
         then (let r = handleMangaListSearch_utf16 E page
                         (case keyword of None \<Rightarrow> [] | Some k \<Rightarrow> k)
               in (toast # fst r, snd r))
         else (let url = listing_url page;
                   r = fetch_try E (listRequest url)
                         (\<lambda>rawStr.
                            case listDocument E page rawStr of
                              Inl error \<Rightarrow> Inl error
                            | Inr document \<Rightarrow>
                                Inr (MangaListResult
                                       (mangaList_each E (seriesItems E document) \<lparr>list = []\<rparr>)))
               in (toast # AppToast url # fst r, snd r)))"

section \<open>Reading an invocation\<close>

fun requestsOf :: "hostcall list \<Rightarrow> request list" where
  "requestsOf [] = []"
| "requestsOf (HttpRequest r # cs) = r # requestsOf cs"
| "requestsOf (_ # cs) = requestsOf cs"

text \<open>The calls on the two channels that end an invocation, in order.\<close>

fun channelCalls :: "hostcall list \<Rightarrow> hostcall list" where
  "channelCalls [] = []"
| "channelCalls (EndWithResult p # cs) = EndWithResult p # channelCalls cs"
| "channelCalls (EndWithException m # cs) = EndWithException m # channelCalls cs"
| "channelCalls (_ # cs) = channelCalls cs"

section \<open>The script selection as the specification words it\<close>

text \<open>
  The specification's reading of the script loop, for comparison with \<open>longestScript\<close>:
  the greatest source-text length wins and, on a tie, the first script encountered stays.
\<close>

definition spec_longestScript :: "'n env \<Rightarrow> 'n list \<Rightarrow> string" where
  "spec_longestScript E scripts =
     foldl (\<lambda>scriptText el.
              let text = text_of E [el]
              in if length text > length scriptText then text else scriptText)
       [] scripts"

section \<open>A small document library for the examples\<close>

text \<open>
  The examples below run the operations on concrete documents. Their nodes are element and
  text nodes; a selector is a chain of simple selectors (\<open>#id\<close>, \<open>.class\<close> or a tag name)
  separated by spaces, the descendant combinator.
\<close>

datatype html =
    Element string "(string \<times> string) list" "html list"
  | TextNode string

fun html_text :: "html \<Rightarrow> string" where
  "html_text (TextNode s) = s"
| "html_text (Element tag attrs kids) = concat (map html_text kids)"

fun html_attr :: "string \<Rightarrow> html \<Rightarrow> string option" where
  "html_attr name (TextNode s) = None"
| "html_attr name (Element tag attrs kids) = map_of attrs name"

fun html_kids :: "html \<Rightarrow> html list" where
  "html_kids (TextNode s) = []"
| "html_kids (Element tag attrs kids) = kids"

fun descendants :: "html \<Rightarrow> html list" where
  "descendants (TextNode s) = []"
| "descendants (Element tag attrs kids) = concat (map (\<lambda>k. k # descendants k) kids)"

fun tokens :: "string \<Rightarrow> string \<Rightarrow> string list" where
  "tokens cur [] = (if cur = [] then [] else [cur])"
| "tokens cur (c # cs) =
     (if c = CHR '' '' then (if cur = [] then tokens [] cs else cur # tokens [] cs)
      else tokens (cur @ [c]) cs)"

fun matches_simple :: "string \<Rightarrow> html \<Rightarrow> bool" where
  "matches_simple sel (TextNode s) = False"
| "matches_simple sel (Element tag attrs kids) =
     (case sel of
        [] \<Rightarrow> False
      | c # name \<Rightarrow>
          if c = CHR ''#'' then map_of attrs ''id'' = Some name
          else if c = CHR ''.''
          then (case map_of attrs ''class'' of
                  None \<Rightarrow> False
                | Some cls \<Rightarrow> name \<in> set (tokens [] cls))
          else tag = sel)"

fun select_chain :: "string list \<Rightarrow> html \<Rightarrow> html list" where
  "select_chain [] n = []"
| "select_chain [s] n = filter (matches_simple s) (descendants n)"
| "select_chain (s # t # ts) n =
     concat (map (select_chain (t # ts)) (filter (matches_simple s) (descendants n)))"

definition html_find :: "string \<Rightarrow> html list \<Rightarrow> html list" where
  "html_find sel c = remdups (concat (map (select_chain (tokens [] sel)) c))"

definition html_children :: "string \<Rightarrow> html list \<Rightarrow> html list" where
  "html_children sel c = concat (map (\<lambda>n. filter (matches_simple sel) (html_kids n)) c)"

text \<open>
  The environment of an example: what the host answers, the document each raw string
  parses to, and what \<open>JSON.parse\<close> and the script evaluation give. One parse serves
  \<open>parseHTML\<close>, \<open>$\<close> and \<open>load\<close>, and it keeps every script element; jQuery's
  \<open>parseHTML\<close> drops the executable ones, so for the first variant the example
  documents stand for pages whose scripts that library keeps.
\<close>

definition example_env ::
  "(request \<Rightarrow> jsval + string) \<Rightarrow> (string \<Rightarrow> html list) \<Rightarrow> (string \<Rightarrow> jsval + jsval)
   \<Rightarrow> (string \<Rightarrow> jsval + jsval) \<Rightarrow> html env" where
  "example_env http parse json run =
     \<lparr>httpRequest = http,
      parseHTML = (\<lambda>v. case v of JStr s \<Rightarrow> Inr (parse s) | _ \<Rightarrow> Inr []),
      jQuery = (\<lambda>s. Inr (parse s)),
      load = (\<lambda>s. Inr (parse s)),
      find_sel = html_find,
      children_sel = html_children,
      node_text = html_text,
      node_attr = html_attr,
      JSON_parse = json,
      new_Function = run,
      typeErrorMessage = (\<lambda>v p. ''Cannot read properties of undefined or null''),
      uriErrorMessage = ''URI malformed''\<rparr>"

subsection \<open>Example documents and an example host\<close>

definition example_listing :: "html list" where
  "example_listing =
     [Element ''div'' [(''id'', ''mainer'')]
        [Element ''div'' [(''id'', ''series-list''), (''class'', ''row'')]
           [Element ''div'' [(''class'', ''col item line-b'')]
              [Element ''a'' [(''class'', ''item-cover''), (''href'', ''/series/1'')]
                 [Element ''img'' [(''src'', ''https://xfs/1.jpg'')] []],
               Element ''div'' [(''class'', ''item-text'')]
                 [Element ''a'' [(''class'', ''item-title''), (''href'', ''/series/1'')]
                    [TextNode ''One'']]],
            Element ''div'' [(''class'', ''col item'')] []]]]"

definition example_bare_item :: html where
  "example_bare_item = Element ''div'' [(''class'', ''col item'')] []"

definition example_detail :: "html list" where
  "example_detail =
     [Element ''div'' [(''id'', ''mainer'')]
        [Element ''h3'' [(''class'', ''item-title'')] [TextNode ''Example Series''],
         Element ''div'' [(''class'', ''episode-list'')]
           [Element ''div'' [(''class'', ''main'')]
              [Element ''div'' [(''class'', ''p-2 item'')]
                 [Element ''a'' [(''class'', ''visited chapt''), (''href'', ''/chapter/42'')]
                    [TextNode ''Ch. 1'']]]]]]"

definition example_blank :: "html list" where
  "example_blank = [Element ''div'' [] [TextNode ''nothing here'']]"

definition example_chapter :: "html list" where
  "example_chapter =
     [Element ''div'' []
        [Element ''script'' [(''src'', ''/static/app.js'')] [],
         Element ''script'' [] [TextNode ''const imgHttps = ['u1','u2'];''],
         Element ''script'' [] [TextNode ''var a = 1;'']]]"

definition example_tie :: "html list" where
  "example_tie =
     [Element ''div'' []
        [Element ''script'' [] [TextNode ''ab''],
         Element ''script'' [] [TextNode ''cd'']]]"

definition example_throw :: "html list" where
  "example_throw = [Element ''div'' [] [Element ''script'' [] [TextNode ''throw null'']]]"

definition example_parse :: "string \<Rightarrow> html list" where
  "example_parse s =
     (if s = ''<listing>'' then example_listing
      else if s = ''<partial>'' then example_listing
      else if s = ''<detail>'' then example_detail
      else if s = ''<chapter>'' then example_chapter
      else if s = ''<tie>'' then example_tie
      else if s = ''<throw>'' then example_throw
      else example_blank)"

definition example_http :: "request \<Rightarrow> jsval + string" where
  "example_http r =
     (if request_url r = ''https://mto.to/latest'' then Inr ''<listing>''
      else if request_url r = ''https://mto.to/latest?page=2'' then Inr ''{envelope}''
      else if request_url r = ''https://mto.to/latest?page=3'' then Inr ''{last}''
      else if request_url r = ''https://mto.to/search?word=one%20piece&page=1'' then Inr ''<listing>''
      else if request_url r = ''https://mto.to/series/7'' then Inr ''<detail>''
      else if request_url r = ''https://mto.to/series/8'' then Inr ''<blank>''
      else if request_url r = ''https://mto.to/chapter/42'' then Inr ''<chapter>''
      else if request_url r = ''https://mto.to/chapter/43'' then Inr ''<throw>''
      else Inl (JError ''Network Error''))"

definition example_json :: "string \<Rightarrow> jsval + jsval" where
  "example_json s =
     (if s = ''{envelope}''
      then Inr (JObj [(''eno'', JNum 0), (''err'', JNull),
                      (''res'', JObj [(''html'', JStr ''<partial>''), (''more'', JBool True)])])
      else if s = ''{last}''
      then Inr (JObj [(''eno'', JNum 0), (''err'', JNull),
                      (''res'', JObj [(''html'', JStr ''<blank>''), (''more'', JBool False)])])
      else Inl (JError ''Unexpected token''))"

text \<open>
  What a JavaScript engine gives for the three function bodies the examples evaluate.
\<close>

definition example_run :: "string \<Rightarrow> jsval + jsval" where
  "example_run src =
     (if src = ''const imgHttps = ['u1','u2'];;return imgHttps;''
      then Inr (JArr [JStr ''u1'', JStr ''u2''])
      else if src = ''throw null;return imgHttps;'' then Inl JNull
      else Inl (JError ''imgHttps is not defined''))"

definition example_site :: "html env" where
  "example_site = example_env example_http example_parse example_json example_run"

section \<open>Basic facts about the model\<close>

lemma orEmpty_Some [simp]: "orEmpty (Some s) = s"
  by (simp add: orEmpty_def)

lemma orEmpty_None [simp]: "orEmpty None = []"
  by (simp add: orEmpty_def)

text \<open>The \<open>each\<close> loops push one record per element, in the order of the matched set.\<close>

lemma mangaList_each_map:
  "mangaList_each E els r = r\<lparr>list := list r @ map (listItem E) els\<rparr>"
  unfolding mangaList_each_def
  by (induction els arbitrary: r) simp_all

lemma episodeList_each_map:
  "episodeList_each E els r = r\<lparr>chapterList := chapterList r @ map (chapterItem E) els\<rparr>"
  unfolding episodeList_each_def
  by (induction els arbitrary: r) simp_all

lemma fetch_try_ok:
  "httpRequest E req = Inr rawStr \<Longrightarrow> body rawStr = Inr result \<Longrightarrow>
   fetch_try E req body = ([HttpRequest req, EndWithResult result], None)"
  by (simp add: fetch_try_def)

lemma requestsOf_fetch_try: "requestsOf (fst (fetch_try E req body)) = [req]"
  by (auto simp: fetch_try_def catch_error_def Let_def split: sum.splits)

lemma handleMangaListSearch_ok:
  assumes "httpRequest E (searchRequest page keyword) = Inr rawStr"
    and "jQuery E rawStr = Inr document"
  shows "handleMangaListSearch E page keyword =
           ([HttpRequest (searchRequest page keyword),
             EndWithResult (MangaListResult \<lparr>list = map (listItem E) (seriesItems E document)\<rparr>)],
            None)"
  unfolding handleMangaListSearch_def
  by (rule fetch_try_ok [OF assms(1)]) (simp add: assms(2) mangaList_each_map)

lemma getMangaList_ok:
  assumes "\<not> truthy keyword"
    and "httpRequest E (listRequest (listing_url (parseIntSafe rawPage 1))) = Inr rawStr"
    and "listDocument E (parseIntSafe rawPage 1) rawStr = Inr document"
  shows "channelCalls (fst (getMangaList E rawPage rawPageSize keyword rawFilterOptions)) =
           [EndWithResult (MangaListResult \<lparr>list = map (listItem E) (seriesItems E document)\<rparr>)]
         \<and> snd (getMangaList E rawPage rawPageSize keyword rawFilterOptions) = None"
proof -
  let ?body = "\<lambda>rawStr. case listDocument E (parseIntSafe rawPage 1) rawStr of
                   Inl error \<Rightarrow> Inl error
                 | Inr document \<Rightarrow>
                     Inr (MangaListResult
                            (mangaList_each E (seriesItems E document) \<lparr>list = []\<rparr>))"
  have "fetch_try E (listRequest (listing_url (parseIntSafe rawPage 1))) ?body =
          ([HttpRequest (listRequest (listing_url (parseIntSafe rawPage 1))),
            EndWithResult (MangaListResult \<lparr>list = map (listItem E) (seriesItems E document)\<rparr>)],
           None)"
    by (rule fetch_try_ok [OF assms(2)]) (simp add: assms(3) mangaList_each_map)
  then show ?thesis
    using assms(1) by (simp add: getMangaList_def Let_def)
qed

lemma getMangaList_requests:
  assumes "\<not> truthy keyword"
  shows "requestsOf (fst (getMangaList E rawPage rawPageSize keyword rawFilterOptions)) =
           [listRequest (listing_url (parseIntSafe rawPage 1))]"
  using assms by (simp add: getMangaList_def Let_def requestsOf_fetch_try)

lemma getMangaList_keyword:
  assumes "keyword \<noteq> []"
  shows "getMangaList E rawPage rawPageSize (Some keyword) rawFilterOptions =
           (AppToast (''Request page '' @ rawPage @ '', keyword: '' @ keyword)
              # fst (handleMangaListSearch E (parseIntSafe rawPage 1) keyword),
            snd (handleMangaListSearch E (parseIntSafe rawPage 1) keyword))"
  using assms by (simp add: getMangaList_def Let_def truthy_def)

text \<open>The facts about the example site that the concrete checks below use.\<close>

lemma example_page1: "parseIntSafe ''1'' 1 = 1"
  by code_simp

lemma example_page2: "parseIntSafe ''2'' 1 = 2"
  by code_simp

lemma example_latest: "httpRequest example_site (listRequest ''https://mto.to/latest'') = Inr ''<listing>''"
  by code_simp

lemma example_latest2:
  "httpRequest example_site (listRequest ''https://mto.to/latest?page=2'') = Inr ''{envelope}''"
  by code_simp

lemma example_search:
  "httpRequest example_site (searchRequest 1 ''one piece'') = Inr ''<listing>''"
  by code_simp

lemma example_parse_listing: "parseHTML example_site (JStr ''<listing>'') = Inr example_listing"
  by code_simp

lemma example_parse_partial: "parseHTML example_site (JStr ''<partial>'') = Inr example_listing"
  by code_simp

lemma example_jQuery_listing: "jQuery example_site ''<listing>'' = Inr example_listing"
  by code_simp

lemma example_envelope:
  "JSON_parse example_site ''{envelope}'' =
     Inr (JObj [(''eno'', JNum 0), (''err'', JNull),
                (''res'', JObj [(''html'', JStr ''<partial>''), (''more'', JBool True)])])"
  by code_simp

lemma example_items:
  "map (listItem example_site) (seriesItems example_site example_listing) =
     [\<lparr>title = ''One'', url = ''https://mto.to/series/1'', coverUrl = ''https://xfs/1.jpg''\<rparr>,
      \<lparr>title = [], url = [], coverUrl = []\<rparr>]"
  by code_simp

text \<open>
  On code units below 256 the encoder for all code units is the one for those strings, and
  so is the search pipeline.
\<close>

lemma hexDigit_values:
  "hexDigit 0 = CHR ''0''" "hexDigit 1 = CHR ''1''" "hexDigit 2 = CHR ''2''"
  "hexDigit 3 = CHR ''3''" "hexDigit 4 = CHR ''4''" "hexDigit 5 = CHR ''5''"
  "hexDigit 6 = CHR ''6''" "hexDigit 7 = CHR ''7''" "hexDigit 8 = CHR ''8''"
  "hexDigit 9 = CHR ''9''" "hexDigit 10 = CHR ''A''" "hexDigit 11 = CHR ''B''"
  "hexDigit 12 = CHR ''C''" "hexDigit 13 = CHR ''D''" "hexDigit 14 = CHR ''E''"
  "hexDigit 15 = CHR ''F''"
  by code_simp+

lemma uriUnreserved_ascii: "uriUnreserved c \<Longrightarrow> (of_char c :: nat) < 128"
  unfolding uriUnreserved_def by auto

lemma encodeURIComponent_utf16_step:
  "encodeURIComponent_utf16 (of_char c # rest) =
     map_option ((@) (encodeChar c)) (encodeURIComponent_utf16 rest)"
proof -
  have b: "(of_char c :: nat) < 256" by simp
  show ?thesis
  proof (cases "uriUnreserved c")
    case True
    with uriUnreserved_ascii [OF True] show ?thesis
      by (simp add: encodeChar_def option.map_comp comp_def cong: option.map_cong)
  next
    case False
    from b have "(of_char c :: nat) < 0x800" and "\<not> 0xD800 \<le> (of_char c :: nat)"
      and "\<not> 0xDC00 \<le> (of_char c :: nat)"
      by linarith+
    with False show ?thesis
      by (simp add: encodeChar_def Let_def isLeadingSurrogate_def isTrailingSurrogate_def
          percentOctets_def utf8Octets_def)
  qed
qed

lemma encodeURIComponent_utf16_latin1:
  "encodeURIComponent_utf16 (utf16 s) = Some (encodeURIComponent s)"
proof (induction s)
  case Nil
  show ?case by (simp add: utf16_def encodeURIComponent_def)
next
  case (Cons c s)
  have "encodeURIComponent_utf16 (utf16 (c # s)) =
          map_option ((@) (encodeChar c)) (encodeURIComponent_utf16 (utf16 s))"
    unfolding utf16_def list.map by (rule encodeURIComponent_utf16_step)
  with Cons show ?case
    by (simp add: encodeURIComponent_def)
qed

lemma searchRequest_word_latin1:
  "searchRequest_word page (encodeURIComponent keyword) = searchRequest page keyword"
  by (simp add: searchRequest_word_def searchRequest_def)

lemma handleMangaListSearch_utf16_latin1:
  "handleMangaListSearch_utf16 E page (utf16 keyword) = handleMangaListSearch E page keyword"
  by (simp add: handleMangaListSearch_utf16_def handleMangaListSearch_def
      encodeURIComponent_utf16_latin1 searchRequest_word_latin1)

lemma utf16_empty [simp]: "utf16 s = [] \<longleftrightarrow> s = []"
  by (simp add: utf16_def)

lemma utf16_append: "utf16 (a @ b) = utf16 a @ utf16 b"
  by (simp add: utf16_def)

lemma getMangaList_utf16_latin1:
  "getMangaList_utf16 E rawPage rawPageSize (map_option utf16 keyword) rawFilterOptions =
     (AppToast_utf16 (utf16 (''Request page '' @ rawPage @ '', keyword: ''
                             @ (case keyword of None \<Rightarrow> ''undefined'' | Some k \<Rightarrow> k)))
        # tl (fst (getMangaList E rawPage rawPageSize keyword rawFilterOptions)),
      snd (getMangaList E rawPage rawPageSize keyword rawFilterOptions))"
proof -
  have toast: "utf16 ''Request page '' @ utf16 rawPage @ utf16 '', keyword: '' @ utf16 x
                 = utf16 (''Request page '' @ rawPage @ '', keyword: '' @ x)" for x
    by (simp add: utf16_def)
  show ?thesis
    by (cases keyword)
      (simp_all add: getMangaList_utf16_def getMangaList_def Let_def truthy_def toast
        handleMangaListSearch_utf16_latin1)
qed

lemma handleMangaListSearch_utf16_ok:
  assumes "encodeURIComponent_utf16 keyword = Some word"
    and "httpRequest E (searchRequest_word page word) = Inr rawStr"
    and "jQuery E rawStr = Inr document"
  shows "handleMangaListSearch_utf16 E page keyword =
           ([HttpRequest (searchRequest_word page word),
             EndWithResult (MangaListResult \<lparr>list = map (listItem E) (seriesItems E document)\<rparr>)],
            None)"
proof -
  have "fetch_try E (searchRequest_word page word)
          (\<lambda>rawStr. case jQuery E rawStr of
               Inl error \<Rightarrow> Inl error
             | Inr document \<Rightarrow>
                 Inr (MangaListResult (mangaList_each E (seriesItems E document) \<lparr>list = []\<rparr>)))
        = ([HttpRequest (searchRequest_word page word),
            EndWithResult (MangaListResult \<lparr>list = map (listItem E) (seriesItems E document)\<rparr>)],
           None)"
    by (rule fetch_try_ok [OF assms(2)]) (simp add: assms(3) mangaList_each_map)
  with assms(1) show ?thesis
    by (simp add: handleMangaListSearch_utf16_def)
qed

text \<open>
  Keywords beyond that range: the ideograph U+4E00 takes three octets, the pair for
  U+1F600 four, and a leading surrogate alone cannot be encoded.
\<close>

lemma example_encode_ideograph: "encodeURIComponent_utf16 [0x4E00] = Some ''%E4%B8%80''"
  by (simp add: isLeadingSurrogate_def isTrailingSurrogate_def percentOctets_def utf8Octets_def
      percentByte_def hexDigit_values)

lemma example_encode_pair: "encodeURIComponent_utf16 [0xD83D, 0xDE00] = Some ''%F0%9F%98%80''"
  by (simp add: isLeadingSurrogate_def isTrailingSurrogate_def percentOctets_def utf8Octets_def
      percentByte_def hexDigit_values)

lemma example_encode_lone: "encodeURIComponent_utf16 [0xD83D] = None"
  by (simp add: isLeadingSurrogate_def isTrailingSurrogate_def)

lemma example_encode_one_piece:
  "encodeURIComponent_utf16 (utf16 ''one piece'') = Some ''one%20piece''"
proof -
  have "encodeURIComponent ''one piece'' = ''one%20piece''"
    by code_simp
  then show ?thesis
    by (simp add: encodeURIComponent_utf16_latin1)
qed

text \<open>
  The end-to-end scenario of the specification: a detail page with the title
  \<open>Example Series\<close> and one chapter \<open>Ch. 1\<close> at \<open>/chapter/42\<close>.
\<close>

lemma example_detail_scenario:
  "getMangaData example_site ''https://mto.to/series/7'' =
     ([HttpRequest (pageRequest ''https://mto.to/series/7''),
       EndWithResult
         (MangaDataResult
            \<lparr>data_title = ''Example Series'', description = [], data_coverUrl = [],
             chapterList = [\<lparr>chapter_title = ''Ch. 1'',
                             chapter_url = ''https://mto.to/chapter/42''\<rparr>]\<rparr>)],
      None)"
  by code_simp

section \<open>Claims\<close>

text \<open>
  C1. Every url taken from an \<open>href\<close> attribute (the url of a list item, the url of a
  chapter) is \<open>https://mto.to\<close> followed by the href when the href is non-empty, and the
  empty string when the href is absent or empty; a cover url, taken from a \<open>src\<close>
  attribute, is the attribute as it is, and the empty string when it is absent. This holds
  for every entry of the list and of the chapter list that the loops build.
\<close>

theorem href_absolute_src_verbatim:
  "list (mangaList_each E mangaList \<lparr>list = []\<rparr>) =
     map (\<lambda>el. \<lparr>title = text_of E (find_sel E ''.item-title'' [el]),
                url = (case attr E ''href'' (find_sel E ''.item-title'' [el]) of
                         None \<Rightarrow> []
                       | Some href \<Rightarrow> if href = [] then [] else ''https://mto.to'' @ href),
                coverUrl = (case attr E ''src'' (find_sel E ''.item-cover img'' [el]) of
                              None \<Rightarrow> []
                            | Some src \<Rightarrow> src)\<rparr>) mangaList
   \<and> chapterList (mangaData E document) =
     map (\<lambda>el. \<lparr>chapter_title = text_of E (find_sel E ''.chapt'' [el]),
                chapter_url = (case attr E ''href'' (find_sel E ''.chapt'' [el]) of
                                 None \<Rightarrow> []
                               | Some href \<Rightarrow> if href = [] then [] else ''https://mto.to'' @ href)\<rparr>)
       (children_sel E ''.item'' (find_sel E ''.episode-list .main'' document))
   \<and> data_coverUrl (mangaData E document) =
     (case attr E ''src'' (children_sel E ''img'' (find_sel E ''.attr-cover'' document)) of
        None \<Rightarrow> []
      | Some src \<Rightarrow> src)"
proof (intro conjI)
  have item: "listItem E el =
      \<lparr>title = text_of E (find_sel E ''.item-title'' [el]),
       url = (case attr E ''href'' (find_sel E ''.item-title'' [el]) of
                None \<Rightarrow> []
              | Some href \<Rightarrow> if href = [] then [] else ''https://mto.to'' @ href),
       coverUrl = (case attr E ''src'' (find_sel E ''.item-cover img'' [el]) of
                     None \<Rightarrow> []
                   | Some src \<Rightarrow> src)\<rparr>" for el
    by (simp add: listItem_def truthy_def Let_def split: option.splits)
  show "list (mangaList_each E mangaList \<lparr>list = []\<rparr>) =
     map (\<lambda>el. \<lparr>title = text_of E (find_sel E ''.item-title'' [el]),
                url = (case attr E ''href'' (find_sel E ''.item-title'' [el]) of
                         None \<Rightarrow> []
                       | Some href \<Rightarrow> if href = [] then [] else ''https://mto.to'' @ href),
                coverUrl = (case attr E ''src'' (find_sel E ''.item-cover img'' [el]) of
                              None \<Rightarrow> []
                            | Some src \<Rightarrow> src)\<rparr>) mangaList"
    by (simp add: mangaList_each_map item)
next
  have chap: "chapterItem E el =
      \<lparr>chapter_title = text_of E (find_sel E ''.chapt'' [el]),
       chapter_url = (case attr E ''href'' (find_sel E ''.chapt'' [el]) of
                        None \<Rightarrow> []
                      | Some href \<Rightarrow> if href = [] then [] else ''https://mto.to'' @ href)\<rparr>" for el
    by (simp add: chapterItem_def truthy_def Let_def split: option.splits)
  show "chapterList (mangaData E document) =
     map (\<lambda>el. \<lparr>chapter_title = text_of E (find_sel E ''.chapt'' [el]),
                chapter_url = (case attr E ''href'' (find_sel E ''.chapt'' [el]) of
                                 None \<Rightarrow> []
                               | Some href \<Rightarrow> if href = [] then [] else ''https://mto.to'' @ href)\<rparr>)
       (children_sel E ''.item'' (find_sel E ''.episode-list .main'' document))"
    by (simp add: mangaData_def Let_def episodeList_each_map chap)
next
  show "data_coverUrl (mangaData E document) =
     (case attr E ''src'' (children_sel E ''img'' (find_sel E ''.attr-cover'' document)) of
        None \<Rightarrow> []
      | Some src \<Rightarrow> src)"
    by (simp add: mangaData_def Let_def episodeList_each_map split: option.splits)
qed

text \<open>
  C2. The listing without a keyword, for a page that the Number holds exactly (at most
  \<open>2^53\<close>; every page not above 1 is within the bound). The one request goes to the
  listing url of the parsed page. When the page is at most 1 that url is exactly
  \<open>https://mto.to/latest\<close> and the raw body itself is given to the HTML parser. When the
  page is above 1 the url is \<open>https://mto.to/latest?page=N\<close>, the raw body is decoded as
  JSON first, and what the HTML parser receives is the \<open>html\<close> field of the envelope's
  \<open>res\<close>, not the raw body; a body that does not decode is a failure. The document so
  obtained is the one the list-item loop reads.
\<close>

theorem listing_fetch_and_parse:
  assumes "\<not> truthy keyword" and "parseIntSafe rawPage 1 = page" and "page \<le> 2 ^ 53"
  shows
    "requestsOf (fst (getMangaList E rawPage rawPageSize keyword rawFilterOptions))
       = [listRequest (listing_url page)]
     \<and> (page \<le> 1 \<longrightarrow>
          listing_url page = ''https://mto.to/latest''
          \<and> listDocument E page rawStr = parseHTML E (JStr rawStr))
     \<and> (page > 1 \<longrightarrow>
          listing_url page = ''https://mto.to/latest?page='' @ numberToString page
          \<and> (JSON_parse E rawStr = Inr (JObj entries)
               \<and> map_of entries ''res'' = Some (JObj resEntries)
               \<and> map_of resEntries ''html'' = Some (JStr html)
               \<longrightarrow> listDocument E page rawStr = parseHTML E (JStr html))
          \<and> (JSON_parse E rawStr = Inl error \<longrightarrow> listDocument E page rawStr = Inl error))
     \<and> (httpRequest E (listRequest (listing_url page)) = Inr rawStr
          \<and> listDocument E page rawStr = Inr document
          \<longrightarrow> channelCalls (fst (getMangaList E rawPage rawPageSize keyword rawFilterOptions))
                = [EndWithResult
                     (MangaListResult \<lparr>list = map (listItem E) (seriesItems E document)\<rparr>)])"
proof (intro conjI impI)
  show "requestsOf (fst (getMangaList E rawPage rawPageSize keyword rawFilterOptions))
          = [listRequest (listing_url page)]"
    unfolding assms(2) [symmetric] by (rule getMangaList_requests [OF assms(1)])
next
  assume "page \<le> 1"
  then show "listing_url page = ''https://mto.to/latest''"
    by (simp add: listing_url_def)
next
  assume "page \<le> 1"
  then show "listDocument E page rawStr = parseHTML E (JStr rawStr)"
    by (simp add: listDocument_def)
next
  assume "1 < page"
  then show "listing_url page = ''https://mto.to/latest?page='' @ numberToString page"
    by (simp add: listing_url_def)
next
  assume "1 < page"
    and "JSON_parse E rawStr = Inr (JObj entries)
         \<and> map_of entries ''res'' = Some (JObj resEntries)
         \<and> map_of resEntries ''html'' = Some (JStr html)"
  then show "listDocument E page rawStr = parseHTML E (JStr html)"
    by (simp add: listDocument_def getProp_def)
next
  assume "1 < page" and "JSON_parse E rawStr = Inl error"
  then show "listDocument E page rawStr = Inl error"
    by (simp add: listDocument_def)
next
  assume "httpRequest E (listRequest (listing_url page)) = Inr rawStr
          \<and> listDocument E page rawStr = Inr document"
  then show "channelCalls (fst (getMangaList E rawPage rawPageSize keyword rawFilterOptions))
                = [EndWithResult
                     (MangaListResult \<lparr>list = map (listItem E) (seriesItems E document)\<rparr>)]"
    unfolding assms(2) [symmetric]
    using getMangaList_ok [of keyword E rawPage rawStr document] assms(1) by simp
qed

theorem listing_fetch_and_parse_witness:
  "\<not> truthy None
   \<and> parseIntSafe ''1'' 1 = 1 \<and> parseIntSafe ''2'' 1 = 2
   \<and> (1::int) \<le> 2 ^ 53 \<and> (2::int) \<le> 2 ^ 53
   \<and> requestsOf (fst (getMangaList example_site ''1'' ''20'' None None))
       = [listRequest ''https://mto.to/latest'']
   \<and> listDocument example_site 1 ''<listing>'' = parseHTML example_site (JStr ''<listing>'')
   \<and> requestsOf (fst (getMangaList example_site ''2'' ''20'' None None))
       = [listRequest ''https://mto.to/latest?page=2'']
   \<and> JSON_parse example_site ''{envelope}'' =
       Inr (JObj [(''eno'', JNum 0), (''err'', JNull),
                  (''res'', JObj [(''html'', JStr ''<partial>''), (''more'', JBool True)])])
   \<and> listDocument example_site 2 ''{envelope}'' = parseHTML example_site (JStr ''<partial>'')
   \<and> channelCalls (fst (getMangaList example_site ''2'' ''20'' None None)) =
       [EndWithResult (MangaListResult
           \<lparr>list = [\<lparr>title = ''One'', url = ''https://mto.to/series/1'',
                      coverUrl = ''https://xfs/1.jpg''\<rparr>,
                    \<lparr>title = [], url = [], coverUrl = []\<rparr>]\<rparr>)]"
proof -
  have h: "\<not> truthy None"
    by (simp add: truthy_def)
  have u1: "listing_url 1 = ''https://mto.to/latest''"
    by (simp add: listing_url_def)
  have u2: "listing_url 2 = ''https://mto.to/latest?page=2''"
    by code_simp
  have n2: "numberToString 2 = ''2''"
    by code_simp
  have b1: "(1::int) \<le> 2 ^ 53"
    by simp
  have b2: "(2::int) \<le> 2 ^ 53"
    by simp
  note t1 = listing_fetch_and_parse [OF h example_page1 b1, where E = example_site
      and rawStr = "''<listing>''" and rawPageSize = "''20''" and rawFilterOptions = None]
  note t2 = listing_fetch_and_parse [OF h example_page2 b2, where E = example_site
      and rawStr = "''{envelope}''" and rawPageSize = "''20''" and rawFilterOptions = None
      and entries = "[(''eno'', JNum 0), (''err'', JNull),
                     (''res'', JObj [(''html'', JStr ''<partial>''), (''more'', JBool True)])]"
      and resEntries = "[(''html'', JStr ''<partial>''), (''more'', JBool True)]"
      and html = "''<partial>''" and document = example_listing]
  have a: "requestsOf (fst (getMangaList example_site ''1'' ''20'' None None))
             = [listRequest ''https://mto.to/latest'']"
    using t1 u1 by simp
  have b: "listDocument example_site 1 ''<listing>'' = parseHTML example_site (JStr ''<listing>'')"
    using t1 by simp
  have c: "requestsOf (fst (getMangaList example_site ''2'' ''20'' None None))
             = [listRequest ''https://mto.to/latest?page=2'']"
    using t2 u2 n2 by simp
  have d: "listDocument example_site 2 ''{envelope}'' = parseHTML example_site (JStr ''<partial>'')"
    using t2 example_envelope n2 by simp
  have e: "channelCalls (fst (getMangaList example_site ''2'' ''20'' None None)) =
       [EndWithResult (MangaListResult
           \<lparr>list = map (listItem example_site) (seriesItems example_site example_listing)\<rparr>)]"
    using t2 u2 n2 d example_latest2 example_parse_partial by simp
  from h a b c d e show ?thesis
    by (simp add: example_page1 example_page2 example_envelope example_items)
qed

text \<open>
  C4. With a non-empty keyword, of any code units, and a page that the Number holds exactly
  (magnitude at most \<open>2^53\<close>), the list operation is the search pipeline and nothing else
  (after the toast that announces the request). When the keyword can be encoded, the one
  request goes to \<open>https://mto.to/search?word=<encoded keyword>&page=<page>\<close> and, fetched
  and read, the raw body gives the result of the list-item loop; when it cannot (a
  surrogate without its partner), the pipeline sends no request and ends on the exception
  channel with the \<open>URIError\<close>'s message. The raw body is read as a document without any
  JSON decoding (the invocation does not depend on \<open>JSON.parse\<close>), and neither the page
  size nor the filter options nor the listing's split on the page number play a part. On a
  keyword of code units below 256 the pipeline is \<open>handleMangaListSearch\<close> as given
  first.
\<close>

theorem keyword_delegates_to_search:
  assumes "keyword \<noteq> []" and "parseIntSafe rawPage 1 = page"
    and "- (2 ^ 53) \<le> page" and "page \<le> 2 ^ 53"
  shows
    "getMangaList_utf16 E rawPage rawPageSize (Some keyword) rawFilterOptions =
       (AppToast_utf16 (utf16 ''Request page '' @ utf16 rawPage @ utf16 '', keyword: '' @ keyword)
          # fst (handleMangaListSearch_utf16 E page keyword),
        snd (handleMangaListSearch_utf16 E page keyword))
     \<and> (encodeURIComponent_utf16 keyword = Some word \<longrightarrow>
          requestsOf (fst (handleMangaListSearch_utf16 E page keyword)) =
            [\<lparr>req_method = ''GET'',
              request_url = ''https://mto.to/search?word='' @ word
                            @ ''&page='' @ numberToString page,
              headers = [(''Cookie'', cookie), (''User-Agent'', userAgent)]\<rparr>]
          \<and> (httpRequest E (searchRequest_word page word) = Inr rawStr
               \<and> jQuery E rawStr = Inr document
               \<longrightarrow> handleMangaListSearch_utf16 E page keyword =
                     ([HttpRequest (searchRequest_word page word),
                       EndWithResult
                         (MangaListResult
                            \<lparr>list = map (listItem E) (seriesItems E document)\<rparr>)],
                      None)))
     \<and> (encodeURIComponent_utf16 keyword = None \<longrightarrow>
          handleMangaListSearch_utf16 E page keyword =
            ([EndWithException (JStr (uriErrorMessage E))], None))
     \<and> handleMangaListSearch_utf16 (E\<lparr>JSON_parse := json\<rparr>) page keyword
         = handleMangaListSearch_utf16 E page keyword
     \<and> getMangaList_utf16 E rawPage rawPageSize' (Some keyword) rawFilterOptions'
         = getMangaList_utf16 E rawPage rawPageSize (Some keyword) rawFilterOptions
     \<and> handleMangaListSearch_utf16 E page (utf16 latin1) = handleMangaListSearch E page latin1"
proof (intro conjI impI)
  show "getMangaList_utf16 E rawPage rawPageSize (Some keyword) rawFilterOptions =
       (AppToast_utf16 (utf16 ''Request page '' @ utf16 rawPage @ utf16 '', keyword: '' @ keyword)
          # fst (handleMangaListSearch_utf16 E page keyword),
        snd (handleMangaListSearch_utf16 E page keyword))"
    unfolding assms(2) [symmetric]
    using assms(1) by (simp add: getMangaList_utf16_def Let_def)
next
  assume "encodeURIComponent_utf16 keyword = Some word"
  then show "requestsOf (fst (handleMangaListSearch_utf16 E page keyword)) =
            [\<lparr>req_method = ''GET'',
              request_url = ''https://mto.to/search?word='' @ word
                            @ ''&page='' @ numberToString page,
              headers = [(''Cookie'', cookie), (''User-Agent'', userAgent)]\<rparr>]"
    by (simp add: handleMangaListSearch_utf16_def requestsOf_fetch_try searchRequest_word_def)
next
  assume "encodeURIComponent_utf16 keyword = Some word"
    and "httpRequest E (searchRequest_word page word) = Inr rawStr \<and> jQuery E rawStr = Inr document"
  then show "handleMangaListSearch_utf16 E page keyword =
                     ([HttpRequest (searchRequest_word page word),
                       EndWithResult
                         (MangaListResult
                            \<lparr>list = map (listItem E) (seriesItems E document)\<rparr>)],
                      None)"
    by (simp add: handleMangaListSearch_utf16_ok)
next
  assume "encodeURIComponent_utf16 keyword = None"
  then show "handleMangaListSearch_utf16 E page keyword =
            ([EndWithException (JStr (uriErrorMessage E))], None)"
    by (simp add: handleMangaListSearch_utf16_def catch_error_def getProp_def)
next
  have at: "attr (E\<lparr>JSON_parse := json\<rparr>) name c = attr E name c" for name c
    by (cases c) (simp_all add: attr_def)
  have tx: "text_of (E\<lparr>JSON_parse := json\<rparr>) c = text_of E c" for c
    by (simp add: text_of_def)
  have item: "listItem (E\<lparr>JSON_parse := json\<rparr>) = listItem E"
    by (rule ext) (simp add: listItem_def at tx cong: if_cong)
  have items: "seriesItems (E\<lparr>JSON_parse := json\<rparr>) = seriesItems E"
    by (rule ext) (simp add: seriesItems_def)
  have catch: "catch_error (E\<lparr>JSON_parse := json\<rparr>) = catch_error E"
    by (rule ext) (simp add: catch_error_def getProp_def split: jsval.splits)
  show "handleMangaListSearch_utf16 (E\<lparr>JSON_parse := json\<rparr>) page keyword
         = handleMangaListSearch_utf16 E page keyword"
    by (simp add: handleMangaListSearch_utf16_def fetch_try_def mangaList_each_map item items catch
        split: sum.splits option.splits)
next
  show "getMangaList_utf16 E rawPage rawPageSize' (Some keyword) rawFilterOptions'
         = getMangaList_utf16 E rawPage rawPageSize (Some keyword) rawFilterOptions"
    using assms(1) by (simp add: getMangaList_utf16_def Let_def)
next
  show "handleMangaListSearch_utf16 E page (utf16 latin1) = handleMangaListSearch E page latin1"
    by (rule handleMangaListSearch_utf16_latin1)
qed

theorem keyword_delegates_to_search_witness:
  "utf16 ''one piece'' \<noteq> [] \<and> [0xD83D] \<noteq> ([] :: nat list)
   \<and> parseIntSafe ''1'' 1 = 1 \<and> - (2 ^ 53) \<le> (1::int) \<and> (1::int) \<le> 2 ^ 53
   \<and> encodeURIComponent_utf16 (utf16 ''one piece'') = Some ''one%20piece''
   \<and> httpRequest example_site (searchRequest_word 1 ''one%20piece'') = Inr ''<listing>''
   \<and> jQuery example_site ''<listing>'' = Inr example_listing
   \<and> encodeURIComponent_utf16 [0xD83D] = None
   \<and> requestsOf (fst (handleMangaListSearch_utf16 example_site 1 (utf16 ''one piece''))) =
       [\<lparr>req_method = ''GET'',
         request_url = ''https://mto.to/search?word=one%20piece&page=1'',
         headers = [(''Cookie'', cookie), (''User-Agent'', userAgent)]\<rparr>]
   \<and> getMangaList_utf16 example_site ''1'' ''20'' (Some (utf16 ''one piece'')) None =
       ([AppToast_utf16 (utf16 ''Request page 1, keyword: one piece''),
         HttpRequest (searchRequest_word 1 ''one%20piece''),
         EndWithResult (MangaListResult
           \<lparr>list = [\<lparr>title = ''One'', url = ''https://mto.to/series/1'',
                      coverUrl = ''https://xfs/1.jpg''\<rparr>,
                    \<lparr>title = [], url = [], coverUrl = []\<rparr>]\<rparr>)],
        None)
   \<and> getMangaList_utf16 example_site ''1'' ''999'' (Some (utf16 ''one piece'')) (Some ''[]'')
       = getMangaList_utf16 example_site ''1'' ''20'' (Some (utf16 ''one piece'')) None
   \<and> getMangaList_utf16 example_site ''1'' ''20'' (Some [0xD83D]) None =
       ([AppToast_utf16 (utf16 ''Request page 1, keyword: '' @ [0xD83D]),
         EndWithException (JStr ''URI malformed'')],
        None)"
proof -
  have k: "utf16 ''one piece'' \<noteq> []"
    by simp
  have k': "[0xD83D] \<noteq> ([] :: nat list)"
    by simp
  have lo: "- (2 ^ 53) \<le> (1::int)"
    by simp
  have hi: "(1::int) \<le> 2 ^ 53"
    by simp
  have num: "numberToString 1 = ''1''"
    by code_simp
  have http: "httpRequest example_site (searchRequest_word 1 ''one%20piece'') = Inr ''<listing>''"
    using example_search searchRequest_word_latin1 [of 1 "''one piece''"]
      example_encode_one_piece encodeURIComponent_utf16_latin1 [of "''one piece''"]
    by simp
  have msg: "uriErrorMessage example_site = ''URI malformed''"
    by (simp add: example_site_def example_env_def)
  have toast: "utf16 ''Request page '' @ utf16 ''1'' @ utf16 '', keyword: '' @ x
                 = utf16 ''Request page 1, keyword: '' @ x" for x
    by (simp add: utf16_def)
  note t = keyword_delegates_to_search [OF k example_page1 lo hi, where E = example_site
      and word = "''one%20piece''" and rawStr = "''<listing>''" and document = example_listing
      and rawPageSize = "''20''" and rawFilterOptions = None
      and rawPageSize' = "''999''" and rawFilterOptions' = "Some ''[]''"]
  note t' = keyword_delegates_to_search [OF k' example_page1 lo hi, where E = example_site
      and rawPageSize = "''20''" and rawFilterOptions = None]
  from t example_encode_one_piece http example_jQuery_listing
  have run: "handleMangaListSearch_utf16 example_site 1 (utf16 ''one piece'') =
       ([HttpRequest (searchRequest_word 1 ''one%20piece''),
         EndWithResult (MangaListResult
           \<lparr>list = map (listItem example_site) (seriesItems example_site example_listing)\<rparr>)],
        None)"
    by blast
  from t example_encode_one_piece
  have req: "requestsOf (fst (handleMangaListSearch_utf16 example_site 1 (utf16 ''one piece''))) =
       [\<lparr>req_method = ''GET'',
         request_url = ''https://mto.to/search?word='' @ ''one%20piece''
                       @ ''&page='' @ numberToString 1,
         headers = [(''Cookie'', cookie), (''User-Agent'', userAgent)]\<rparr>]"
    by blast
  from t have same: "getMangaList_utf16 example_site ''1'' ''999'' (Some (utf16 ''one piece'')) (Some ''[]'')
       = getMangaList_utf16 example_site ''1'' ''20'' (Some (utf16 ''one piece'')) None"
    by blast
  from t have whole: "getMangaList_utf16 example_site ''1'' ''20'' (Some (utf16 ''one piece'')) None =
       (AppToast_utf16 (utf16 ''Request page '' @ utf16 ''1'' @ utf16 '', keyword: ''
                        @ utf16 ''one piece'')
          # fst (handleMangaListSearch_utf16 example_site 1 (utf16 ''one piece'')),
        snd (handleMangaListSearch_utf16 example_site 1 (utf16 ''one piece'')))"
    by blast
  from t' example_encode_lone
  have lone: "handleMangaListSearch_utf16 example_site 1 [0xD83D] =
       ([EndWithException (JStr (uriErrorMessage example_site))], None)"
    by blast
  from t' have whole': "getMangaList_utf16 example_site ''1'' ''20'' (Some [0xD83D]) None =
       (AppToast_utf16 (utf16 ''Request page '' @ utf16 ''1'' @ utf16 '', keyword: '' @ [0xD83D])
          # fst (handleMangaListSearch_utf16 example_site 1 [0xD83D]),
        snd (handleMangaListSearch_utf16 example_site 1 [0xD83D]))"
    by blast
  have a: "getMangaList_utf16 example_site ''1'' ''20'' (Some (utf16 ''one piece'')) None =
       ([AppToast_utf16 (utf16 ''Request page 1, keyword: one piece''),
         HttpRequest (searchRequest_word 1 ''one%20piece''),
         EndWithResult (MangaListResult
           \<lparr>list = [\<lparr>title = ''One'', url = ''https://mto.to/series/1'',
                      coverUrl = ''https://xfs/1.jpg''\<rparr>,
                    \<lparr>title = [], url = [], coverUrl = []\<rparr>]\<rparr>)],
        None)"
    unfolding whole run by (simp add: example_items utf16_def)
  have b: "getMangaList_utf16 example_site ''1'' ''20'' (Some [0xD83D]) None =
       ([AppToast_utf16 (utf16 ''Request page 1, keyword: '' @ [0xD83D]),
         EndWithException (JStr ''URI malformed'')],
        None)"
    unfolding whole' lone by (simp add: msg toast)
  have c: "requestsOf (fst (handleMangaListSearch_utf16 example_site 1 (utf16 ''one piece''))) =
       [\<lparr>req_method = ''GET'',
         request_url = ''https://mto.to/search?word=one%20piece&page=1'',
         headers = [(''Cookie'', cookie), (''User-Agent'', userAgent)]\<rparr>]"
    unfolding req by (simp add: num)
  from k k' lo hi example_page1 example_encode_one_piece http example_jQuery_listing
    example_encode_lone a b c same
  show ?thesis
    by blast
qed

text \<open>
  C10. Every node matched by \<open>#series-list\<close> \<open>>\<close> \<open>.item\<close> contributes exactly one
  summary to the list, in the order of the matched set, so the list is as long as the
  matched set; an item whose title and cover sub-selectors both miss still contributes the
  entry with three empty strings. The search pipeline and the listing emit this list.
\<close>

theorem one_summary_per_item:
  "list (mangaList_each E (seriesItems E document) \<lparr>list = []\<rparr>)
     = map (listItem E) (seriesItems E document)
   \<and> length (list (mangaList_each E (seriesItems E document) \<lparr>list = []\<rparr>))
     = length (seriesItems E document)
   \<and> (find_sel E ''.item-title'' [el] = [] \<and> find_sel E ''.item-cover img'' [el] = []
        \<longrightarrow> listItem E el = \<lparr>title = [], url = [], coverUrl = []\<rparr>)
   \<and> (httpRequest E (searchRequest page keyword) = Inr rawStr \<and> jQuery E rawStr = Inr document
        \<longrightarrow> handleMangaListSearch E page keyword =
              ([HttpRequest (searchRequest page keyword),
                EndWithResult (MangaListResult \<lparr>list = map (listItem E) (seriesItems E document)\<rparr>)],
               None))
   \<and> (\<not> truthy kw
        \<and> httpRequest E (listRequest (listing_url (parseIntSafe rawPage 1))) = Inr rawStr'
        \<and> listDocument E (parseIntSafe rawPage 1) rawStr' = Inr document
        \<longrightarrow> channelCalls (fst (getMangaList E rawPage rawPageSize kw rawFilterOptions)) =
              [EndWithResult (MangaListResult \<lparr>list = map (listItem E) (seriesItems E document)\<rparr>)])"
proof (intro conjI impI)
  show "list (mangaList_each E (seriesItems E document) \<lparr>list = []\<rparr>)
          = map (listItem E) (seriesItems E document)"
    by (simp add: mangaList_each_map)
  show "length (list (mangaList_each E (seriesItems E document) \<lparr>list = []\<rparr>))
          = length (seriesItems E document)"
    by (simp add: mangaList_each_map)
next
  assume "find_sel E ''.item-title'' [el] = [] \<and> find_sel E ''.item-cover img'' [el] = []"
  then show "listItem E el = \<lparr>title = [], url = [], coverUrl = []\<rparr>"
    by (simp add: listItem_def text_of_def attr_def truthy_def)
next
  assume "httpRequest E (searchRequest page keyword) = Inr rawStr \<and> jQuery E rawStr = Inr document"
  then show "handleMangaListSearch E page keyword =
              ([HttpRequest (searchRequest page keyword),
                EndWithResult (MangaListResult \<lparr>list = map (listItem E) (seriesItems E document)\<rparr>)],
               None)"
    by (simp add: handleMangaListSearch_ok)
next
  assume "\<not> truthy kw
        \<and> httpRequest E (listRequest (listing_url (parseIntSafe rawPage 1))) = Inr rawStr'
        \<and> listDocument E (parseIntSafe rawPage 1) rawStr' = Inr document"
  then show "channelCalls (fst (getMangaList E rawPage rawPageSize kw rawFilterOptions)) =
              [EndWithResult (MangaListResult \<lparr>list = map (listItem E) (seriesItems E document)\<rparr>)]"
    using getMangaList_ok [of kw E rawPage rawStr' document] by simp
qed

theorem one_summary_per_item_witness:
  "find_sel example_site ''.item-title'' [example_bare_item] = []
   \<and> find_sel example_site ''.item-cover img'' [example_bare_item] = []
   \<and> httpRequest example_site (searchRequest 1 ''one piece'') = Inr ''<listing>''
   \<and> jQuery example_site ''<listing>'' = Inr example_listing
   \<and> \<not> truthy None
   \<and> httpRequest example_site (listRequest (listing_url (parseIntSafe ''1'' 1))) = Inr ''<listing>''
   \<and> listDocument example_site (parseIntSafe ''1'' 1) ''<listing>'' = Inr example_listing
   \<and> length (seriesItems example_site example_listing) = 2
   \<and> length (list (mangaList_each example_site (seriesItems example_site example_listing)
                     \<lparr>list = []\<rparr>)) = 2
   \<and> listItem example_site example_bare_item = \<lparr>title = [], url = [], coverUrl = []\<rparr>
   \<and> handleMangaListSearch example_site 1 ''one piece'' =
       ([HttpRequest (searchRequest 1 ''one piece''),
         EndWithResult (MangaListResult
           \<lparr>list = [\<lparr>title = ''One'', url = ''https://mto.to/series/1'',
                      coverUrl = ''https://xfs/1.jpg''\<rparr>,
                    \<lparr>title = [], url = [], coverUrl = []\<rparr>]\<rparr>)],
        None)
   \<and> channelCalls (fst (getMangaList example_site ''1'' ''20'' None None)) =
       [EndWithResult (MangaListResult
           \<lparr>list = [\<lparr>title = ''One'', url = ''https://mto.to/series/1'',
                      coverUrl = ''https://xfs/1.jpg''\<rparr>,
                    \<lparr>title = [], url = [], coverUrl = []\<rparr>]\<rparr>)]"
proof -
  have h1: "find_sel example_site ''.item-title'' [example_bare_item] = []"
    by code_simp
  have h2: "find_sel example_site ''.item-cover img'' [example_bare_item] = []"
    by code_simp
  have h3: "\<not> truthy None"
    by (simp add: truthy_def)
  have h4: "listing_url (parseIntSafe ''1'' 1) = ''https://mto.to/latest''"
    by (simp add: example_page1 listing_url_def)
  have h5: "listDocument example_site (parseIntSafe ''1'' 1) ''<listing>'' = Inr example_listing"
    by (simp add: example_page1 listDocument_def example_parse_listing)
  have n: "length (seriesItems example_site example_listing) = 2"
    by code_simp
  note t = one_summary_per_item [where E = example_site and document = example_listing
      and el = example_bare_item and page = 1 and keyword = "''one piece''"
      and rawStr = "''<listing>''" and kw = None and rawPage = "''1''"
      and rawStr' = "''<listing>''" and rawPageSize = "''20''" and rawFilterOptions = None]
  from t h1 h2 h3 h4 h5 n show ?thesis
    by (simp add: example_search example_jQuery_listing example_latest example_items)
qed

text \<open>
  C5. A page argument that \<open>parseInt\<close> cannot read as an integer (the empty string and
  \<open>abc\<close> are such arguments) makes the list operation work on page 1: apart from the
  first toast, which repeats the raw argument, the invocation is the invocation for the
  argument \<open>1\<close>, with or without a keyword. The parse itself is a total function, so no
  failure comes from it: with the listing fetched and parsed, the invocation ends on the
  result channel.
\<close>

theorem unparsable_page_is_page_1:
  "parseInt [] = None \<and> parseInt ''abc'' = None
   \<and> (parseInt rawPage = None \<longrightarrow>
        parseIntSafe rawPage 1 = 1
        \<and> tl (fst (getMangaList E rawPage rawPageSize keyword rawFilterOptions))
            = tl (fst (getMangaList E ''1'' rawPageSize keyword rawFilterOptions))
        \<and> snd (getMangaList E rawPage rawPageSize keyword rawFilterOptions)
            = snd (getMangaList E ''1'' rawPageSize keyword rawFilterOptions)
        \<and> requestsOf (fst (getMangaList E rawPage rawPageSize None rawFilterOptions))
            = [listRequest ''https://mto.to/latest'']
        \<and> (httpRequest E (listRequest ''https://mto.to/latest'') = Inr rawStr
             \<and> parseHTML E (JStr rawStr) = Inr document
             \<longrightarrow> channelCalls (fst (getMangaList E rawPage rawPageSize None rawFilterOptions))
                   = [EndWithResult
                        (MangaListResult \<lparr>list = map (listItem E) (seriesItems E document)\<rparr>)]
                 \<and> snd (getMangaList E rawPage rawPageSize None rawFilterOptions) = None))"
proof (intro conjI impI)
  show "parseInt [] = None"
    by code_simp
  show "parseInt ''abc'' = None"
    by code_simp
next
  assume nan: "parseInt rawPage = None"
  then show p: "parseIntSafe rawPage 1 = 1"
    by (simp add: parseIntSafe_def)
  show "tl (fst (getMangaList E rawPage rawPageSize keyword rawFilterOptions))
            = tl (fst (getMangaList E ''1'' rawPageSize keyword rawFilterOptions))"
    by (simp add: getMangaList_def Let_def p example_page1)
  show "snd (getMangaList E rawPage rawPageSize keyword rawFilterOptions)
            = snd (getMangaList E ''1'' rawPageSize keyword rawFilterOptions)"
    by (simp add: getMangaList_def Let_def p example_page1)
  have none: "\<not> truthy None"
    by (simp add: truthy_def)
  have u: "listing_url (parseIntSafe rawPage 1) = ''https://mto.to/latest''"
    by (simp add: p listing_url_def)
  show "requestsOf (fst (getMangaList E rawPage rawPageSize None rawFilterOptions))
            = [listRequest ''https://mto.to/latest'']"
    using getMangaList_requests [OF none, of E rawPage rawPageSize rawFilterOptions] u by simp
  assume ok: "httpRequest E (listRequest ''https://mto.to/latest'') = Inr rawStr
             \<and> parseHTML E (JStr rawStr) = Inr document"
  then have doc: "listDocument E (parseIntSafe rawPage 1) rawStr = Inr document"
    by (simp add: p listDocument_def)
  from ok u have req: "httpRequest E (listRequest (listing_url (parseIntSafe rawPage 1))) = Inr rawStr"
    by simp
  show "channelCalls (fst (getMangaList E rawPage rawPageSize None rawFilterOptions))
                   = [EndWithResult
                        (MangaListResult \<lparr>list = map (listItem E) (seriesItems E document)\<rparr>)]"
    using getMangaList_ok [OF none req doc] by simp
  show "snd (getMangaList E rawPage rawPageSize None rawFilterOptions) = None"
    using getMangaList_ok [OF none req doc] by simp
qed

theorem unparsable_page_is_page_1_witness:
  "parseInt ''abc'' = None
   \<and> httpRequest example_site (listRequest ''https://mto.to/latest'') = Inr ''<listing>''
   \<and> parseHTML example_site (JStr ''<listing>'') = Inr example_listing
   \<and> parseIntSafe ''abc'' 1 = 1
   \<and> requestsOf (fst (getMangaList example_site ''abc'' ''20'' None None))
       = [listRequest ''https://mto.to/latest'']
   \<and> tl (fst (getMangaList example_site ''abc'' ''20'' (Some ''one piece'') None))
       = tl (fst (getMangaList example_site ''1'' ''20'' (Some ''one piece'') None))
   \<and> channelCalls (fst (getMangaList example_site ''abc'' ''20'' None None)) =
       [EndWithResult (MangaListResult
           \<lparr>list = [\<lparr>title = ''One'', url = ''https://mto.to/series/1'',
                      coverUrl = ''https://xfs/1.jpg''\<rparr>,
                    \<lparr>title = [], url = [], coverUrl = []\<rparr>]\<rparr>)]
   \<and> snd (getMangaList example_site ''abc'' ''20'' None None) = None"
proof -
  have nan: "parseInt ''abc'' = None"
    by code_simp
  note t = unparsable_page_is_page_1 [where rawPage = "''abc''" and E = example_site
      and rawPageSize = "''20''" and rawFilterOptions = None and rawStr = "''<listing>''"
      and document = example_listing]
  have a: "tl (fst (getMangaList example_site ''abc'' ''20'' (Some ''one piece'') None))
       = tl (fst (getMangaList example_site ''1'' ''20'' (Some ''one piece'') None))"
    using t [where keyword = "Some ''one piece''"] nan by simp
  from t [where keyword = None] nan
  have b: "parseIntSafe ''abc'' 1 = 1
      \<and> requestsOf (fst (getMangaList example_site ''abc'' ''20'' None None))
          = [listRequest ''https://mto.to/latest'']
      \<and> (httpRequest example_site (listRequest ''https://mto.to/latest'') = Inr ''<listing>''
           \<and> parseHTML example_site (JStr ''<listing>'') = Inr example_listing
           \<longrightarrow> channelCalls (fst (getMangaList example_site ''abc'' ''20'' None None))
                 = [EndWithResult
                      (MangaListResult
                         \<lparr>list = map (listItem example_site)
                                   (seriesItems example_site example_listing)\<rparr>)]
               \<and> snd (getMangaList example_site ''abc'' ''20'' None None) = None)"
    by blast
  from nan a b show ?thesis
    by (simp add: example_latest example_parse_listing example_items)
qed

text \<open>
  C6. When the evaluated script gives \<open>imgHttps\<close> as an array of \<open>n\<close> url strings, the
  images operation emits \<open>n\<close> records in the same order, the i-th with the i-th url and
  with width and height 1, in both variants of the file. The urls \<open>u1\<close>, \<open>u2\<close> give
  the two records of the specification's example.
\<close>

theorem images_keep_order_and_unit_size:
  assumes "new_Function E (longestScript E (find_sel E ''script'' document) @ '';return imgHttps;'')
             = Inr (JArr (map JStr urls))"
  shows
    "chapterImages E document =
       Inr (ChapterImageList (map (\<lambda>u. \<lparr>image_url = JStr u, width = 1, height = 1\<rparr>) urls))
     \<and> length (map (\<lambda>u. \<lparr>image_url = JStr u, width = 1, height = 1\<rparr>) urls) = length urls
     \<and> (\<forall>i. i < length urls \<longrightarrow>
            map (\<lambda>u. \<lparr>image_url = JStr u, width = 1, height = 1\<rparr>) urls ! i
              = \<lparr>image_url = JStr (urls ! i), width = 1, height = 1\<rparr>)
     \<and> (httpRequest E (pageRequest chapterUrl) = Inr rawStr
          \<and> parseHTML E (JStr rawStr) = Inr document
          \<longrightarrow> getChapterImageList E chapterUrl =
                ([HttpRequest (pageRequest chapterUrl),
                  EndWithResult
                    (ChapterImageList
                       (map (\<lambda>u. \<lparr>image_url = JStr u, width = 1, height = 1\<rparr>) urls))],
                 None))
     \<and> (httpRequest E (plainRequest chapterUrl) = Inr rawStr'
          \<and> load E rawStr' = Inr document
          \<longrightarrow> getChapterImageList_cheerio E chapterUrl =
                ([HttpRequest (plainRequest chapterUrl),
                  EndWithResult
                    (ChapterImageList
                       (map (\<lambda>u. \<lparr>image_url = JStr u, width = 1, height = 1\<rparr>) urls))],
                 None))"
proof -
  have imgs: "chapterImages E document =
       Inr (ChapterImageList (map (\<lambda>u. \<lparr>image_url = JStr u, width = 1, height = 1\<rparr>) urls))"
    using assms by (simp add: chapterImages_def imgHttps_map_def Let_def comp_def)
  have op: "getChapterImageList E chapterUrl =
                ([HttpRequest (pageRequest chapterUrl),
                  EndWithResult
                    (ChapterImageList
                       (map (\<lambda>u. \<lparr>image_url = JStr u, width = 1, height = 1\<rparr>) urls))],
                 None)"
    if "httpRequest E (pageRequest chapterUrl) = Inr rawStr \<and> parseHTML E (JStr rawStr) = Inr document"
    unfolding getChapterImageList_def
    by (rule fetch_try_ok [where rawStr = rawStr]) (simp_all add: that imgs)
  have op': "getChapterImageList_cheerio E chapterUrl =
                ([HttpRequest (plainRequest chapterUrl),
                  EndWithResult
                    (ChapterImageList
                       (map (\<lambda>u. \<lparr>image_url = JStr u, width = 1, height = 1\<rparr>) urls))],
                 None)"
    if "httpRequest E (plainRequest chapterUrl) = Inr rawStr' \<and> load E rawStr' = Inr document"
    unfolding getChapterImageList_cheerio_def
    by (rule fetch_try_ok [where rawStr = rawStr']) (simp_all add: that imgs)
  from imgs op op' show ?thesis
    by simp
qed

theorem images_keep_order_and_unit_size_witness:
  "new_Function example_site
     (longestScript example_site (find_sel example_site ''script'' example_chapter)
      @ '';return imgHttps;'') = Inr (JArr (map JStr [''u1'', ''u2'']))
   \<and> httpRequest example_site (pageRequest ''https://mto.to/chapter/42'') = Inr ''<chapter>''
   \<and> parseHTML example_site (JStr ''<chapter>'') = Inr example_chapter
   \<and> httpRequest example_site (plainRequest ''https://mto.to/chapter/42'') = Inr ''<chapter>''
   \<and> load example_site ''<chapter>'' = Inr example_chapter
   \<and> getChapterImageList example_site ''https://mto.to/chapter/42'' =
       ([HttpRequest (pageRequest ''https://mto.to/chapter/42''),
         EndWithResult
           (ChapterImageList
              [\<lparr>image_url = JStr ''u1'', width = 1, height = 1\<rparr>,
               \<lparr>image_url = JStr ''u2'', width = 1, height = 1\<rparr>])],
        None)
   \<and> getChapterImageList_cheerio example_site ''https://mto.to/chapter/42'' =
       ([HttpRequest (plainRequest ''https://mto.to/chapter/42''),
         EndWithResult
           (ChapterImageList
              [\<lparr>image_url = JStr ''u1'', width = 1, height = 1\<rparr>,
               \<lparr>image_url = JStr ''u2'', width = 1, height = 1\<rparr>])],
        None)"
proof -
  have h1: "new_Function example_site
     (longestScript example_site (find_sel example_site ''script'' example_chapter)
      @ '';return imgHttps;'') = Inr (JArr (map JStr [''u1'', ''u2'']))"
    by code_simp
  have h2: "httpRequest example_site (pageRequest ''https://mto.to/chapter/42'') = Inr ''<chapter>''"
    by code_simp
  have h3: "parseHTML example_site (JStr ''<chapter>'') = Inr example_chapter"
    by code_simp
  have h4: "httpRequest example_site (plainRequest ''https://mto.to/chapter/42'') = Inr ''<chapter>''"
    by code_simp
  have h5: "load example_site ''<chapter>'' = Inr example_chapter"
    by code_simp
  note t = images_keep_order_and_unit_size [OF h1, where chapterUrl = "''https://mto.to/chapter/42''"
      and rawStr = "''<chapter>''" and rawStr' = "''<chapter>''"]
  from t h2 h3
  have a: "getChapterImageList example_site ''https://mto.to/chapter/42'' =
       ([HttpRequest (pageRequest ''https://mto.to/chapter/42''),
         EndWithResult
           (ChapterImageList
              (map (\<lambda>u. \<lparr>image_url = JStr u, width = 1, height = 1\<rparr>) [''u1'', ''u2'']))],
        None)"
    by blast
  from t h4 h5
  have b: "getChapterImageList_cheerio example_site ''https://mto.to/chapter/42'' =
       ([HttpRequest (plainRequest ''https://mto.to/chapter/42''),
         EndWithResult
           (ChapterImageList
              (map (\<lambda>u. \<lparr>image_url = JStr u, width = 1, height = 1\<rparr>) [''u1'', ''u2'']))],
        None)"
    by blast
  from h1 h2 h3 h4 h5 a b show ?thesis
    by simp
qed

text \<open>
  C7. In the list-item rule and in the detail rule a selector that matches no node gives the
  field its empty default: the empty string for a title, a url, a description or a cover
  url, the empty list for the chapter list and for the list of summaries. No miss is a
  failure: once the page is fetched and parsed, the detail operation and the listing end on
  the result channel whatever the selectors match, and an empty or absent
  \<open>#series-list\<close> gives the result whose list is empty.
\<close>

theorem selector_miss_gives_defaults:
  "(find_sel E ''.item-title'' [el] = []
      \<longrightarrow> title (listItem E el) = [] \<and> url (listItem E el) = [])
   \<and> (find_sel E ''.item-cover img'' [el] = [] \<longrightarrow> coverUrl (listItem E el) = [])
   \<and> (find_sel E ''.chapt'' [el] = []
      \<longrightarrow> chapterItem E el = \<lparr>chapter_title = [], chapter_url = []\<rparr>)
   \<and> (find_sel E ''.item-title'' document = [] \<longrightarrow> data_title (mangaData E document) = [])
   \<and> (find_sel E ''#limit-height-body-summary .limit-html'' document = []
      \<longrightarrow> description (mangaData E document) = [])
   \<and> (children_sel E ''img'' (find_sel E ''.attr-cover'' document) = []
      \<longrightarrow> data_coverUrl (mangaData E document) = [])
   \<and> (children_sel E ''.item'' (find_sel E ''.episode-list .main'' document) = []
      \<longrightarrow> chapterList (mangaData E document) = [])
   \<and> (seriesItems E document = []
      \<longrightarrow> mangaList_each E (seriesItems E document) \<lparr>list = []\<rparr> = \<lparr>list = []\<rparr>)
   \<and> (httpRequest E (pageRequest dataPageUrl) = Inr rawStr
       \<and> parseHTML E (JStr rawStr) = Inr document
      \<longrightarrow> getMangaData E dataPageUrl =
            ([HttpRequest (pageRequest dataPageUrl),
              EndWithResult (MangaDataResult (mangaData E document))], None))
   \<and> (\<not> truthy keyword
       \<and> httpRequest E (listRequest (listing_url (parseIntSafe rawPage 1))) = Inr rawStr'
       \<and> listDocument E (parseIntSafe rawPage 1) rawStr' = Inr document
       \<and> seriesItems E document = []
      \<longrightarrow> channelCalls (fst (getMangaList E rawPage rawPageSize keyword rawFilterOptions))
            = [EndWithResult (MangaListResult \<lparr>list = []\<rparr>)]
          \<and> snd (getMangaList E rawPage rawPageSize keyword rawFilterOptions) = None)"
proof (intro conjI impI)
  assume "find_sel E ''.item-title'' [el] = []"
  then show "title (listItem E el) = []" and "url (listItem E el) = []"
    by (simp_all add: listItem_def text_of_def attr_def truthy_def)
next
  assume "find_sel E ''.item-cover img'' [el] = []"
  then show "coverUrl (listItem E el) = []"
    by (simp add: listItem_def attr_def Let_def)
next
  assume "find_sel E ''.chapt'' [el] = []"
  then show "chapterItem E el = \<lparr>chapter_title = [], chapter_url = []\<rparr>"
    by (simp add: chapterItem_def text_of_def attr_def truthy_def)
next
  assume "find_sel E ''.item-title'' document = []"
  then show "data_title (mangaData E document) = []"
    by (simp add: mangaData_def Let_def episodeList_each_map text_of_def)
next
  assume "find_sel E ''#limit-height-body-summary .limit-html'' document = []"
  then show "description (mangaData E document) = []"
    by (simp add: mangaData_def Let_def episodeList_each_map text_of_def)
next
  assume "children_sel E ''img'' (find_sel E ''.attr-cover'' document) = []"
  then show "data_coverUrl (mangaData E document) = []"
    by (simp add: mangaData_def Let_def episodeList_each_map attr_def)
next
  assume "children_sel E ''.item'' (find_sel E ''.episode-list .main'' document) = []"
  then show "chapterList (mangaData E document) = []"
    by (simp add: mangaData_def Let_def episodeList_each_map)
next
  assume "seriesItems E document = []"
  then show "mangaList_each E (seriesItems E document) \<lparr>list = []\<rparr> = \<lparr>list = []\<rparr>"
    by (simp add: mangaList_each_map)
next
  assume "httpRequest E (pageRequest dataPageUrl) = Inr rawStr
       \<and> parseHTML E (JStr rawStr) = Inr document"
  then show "getMangaData E dataPageUrl =
            ([HttpRequest (pageRequest dataPageUrl),
              EndWithResult (MangaDataResult (mangaData E document))], None)"
    unfolding getMangaData_def
    by (intro fetch_try_ok [where rawStr = rawStr]) simp_all
next
  assume a: "\<not> truthy keyword
       \<and> httpRequest E (listRequest (listing_url (parseIntSafe rawPage 1))) = Inr rawStr'
       \<and> listDocument E (parseIntSafe rawPage 1) rawStr' = Inr document
       \<and> seriesItems E document = []"
  then show "channelCalls (fst (getMangaList E rawPage rawPageSize keyword rawFilterOptions))
            = [EndWithResult (MangaListResult \<lparr>list = []\<rparr>)]"
    using getMangaList_ok [of keyword E rawPage rawStr' document] by simp
  from a show "snd (getMangaList E rawPage rawPageSize keyword rawFilterOptions) = None"
    using getMangaList_ok [of keyword E rawPage rawStr' document] by simp
qed

theorem selector_miss_gives_defaults_witness:
  "find_sel example_site ''.item-title'' [example_bare_item] = []
   \<and> find_sel example_site ''.item-cover img'' [example_bare_item] = []
   \<and> find_sel example_site ''.chapt'' [example_bare_item] = []
   \<and> find_sel example_site ''.item-title'' example_blank = []
   \<and> find_sel example_site ''#limit-height-body-summary .limit-html'' example_blank = []
   \<and> children_sel example_site ''img'' (find_sel example_site ''.attr-cover'' example_blank) = []
   \<and> children_sel example_site ''.item''
        (find_sel example_site ''.episode-list .main'' example_blank) = []
   \<and> seriesItems example_site example_blank = []
   \<and> httpRequest example_site (pageRequest ''https://mto.to/series/8'') = Inr ''<blank>''
   \<and> parseHTML example_site (JStr ''<blank>'') = Inr example_blank
   \<and> \<not> truthy None
   \<and> httpRequest example_site (listRequest (listing_url (parseIntSafe ''3'' 1))) = Inr ''{last}''
   \<and> listDocument example_site (parseIntSafe ''3'' 1) ''{last}'' = Inr example_blank
   \<and> listItem example_site example_bare_item = \<lparr>title = [], url = [], coverUrl = []\<rparr>
   \<and> chapterItem example_site example_bare_item = \<lparr>chapter_title = [], chapter_url = []\<rparr>
   \<and> mangaList_each example_site (seriesItems example_site example_blank) \<lparr>list = []\<rparr>
       = \<lparr>list = []\<rparr>
   \<and> getMangaData example_site ''https://mto.to/series/8'' =
       ([HttpRequest (pageRequest ''https://mto.to/series/8''),
         EndWithResult
           (MangaDataResult
              \<lparr>data_title = [], description = [], data_coverUrl = [], chapterList = []\<rparr>)],
        None)
   \<and> channelCalls (fst (getMangaList example_site ''3'' ''20'' None None))
       = [EndWithResult (MangaListResult \<lparr>list = []\<rparr>)]
   \<and> snd (getMangaList example_site ''3'' ''20'' None None) = None"
proof -
  have h1: "find_sel example_site ''.item-title'' [example_bare_item] = []"
    by code_simp
  have h2: "find_sel example_site ''.item-cover img'' [example_bare_item] = []"
    by code_simp
  have h3: "find_sel example_site ''.chapt'' [example_bare_item] = []"
    by code_simp
  have h4: "find_sel example_site ''.item-title'' example_blank = []"
    by code_simp
  have h5: "find_sel example_site ''#limit-height-body-summary .limit-html'' example_blank = []"
    by code_simp
  have h6: "children_sel example_site ''img'' (find_sel example_site ''.attr-cover'' example_blank) = []"
    by code_simp
  have h7: "children_sel example_site ''.item''
        (find_sel example_site ''.episode-list .main'' example_blank) = []"
    by code_simp
  have h8: "seriesItems example_site example_blank = []"
    by code_simp
  have h9: "httpRequest example_site (pageRequest ''https://mto.to/series/8'') = Inr ''<blank>''"
    by code_simp
  have h10: "parseHTML example_site (JStr ''<blank>'') = Inr example_blank"
    by code_simp
  have h11: "\<not> truthy None"
    by (simp add: truthy_def)
  have h12: "httpRequest example_site (listRequest (listing_url (parseIntSafe ''3'' 1))) = Inr ''{last}''"
    by code_simp
  have h13: "listDocument example_site (parseIntSafe ''3'' 1) ''{last}'' = Inr example_blank"
    by code_simp
  note t = selector_miss_gives_defaults [where E = example_site and el = example_bare_item
      and document = example_blank and dataPageUrl = "''https://mto.to/series/8''"
      and rawStr = "''<blank>''" and keyword = None and rawPage = "''3''"
      and rawStr' = "''{last}''" and rawPageSize = "''20''" and rawFilterOptions = None]
  have item: "listItem example_site example_bare_item = \<lparr>title = [], url = [], coverUrl = []\<rparr>"
    using t h1 h2 by (cases "listItem example_site example_bare_item") simp
  have chap: "chapterItem example_site example_bare_item = \<lparr>chapter_title = [], chapter_url = []\<rparr>"
    using t h3 by simp
  have data: "mangaData example_site example_blank =
      \<lparr>data_title = [], description = [], data_coverUrl = [], chapterList = []\<rparr>"
    using t h4 h5 h6 h7 by (cases "mangaData example_site example_blank") simp
  have run: "getMangaData example_site ''https://mto.to/series/8'' =
       ([HttpRequest (pageRequest ''https://mto.to/series/8''),
         EndWithResult (MangaDataResult (mangaData example_site example_blank))], None)"
    using t h9 h10 by simp
  have each: "mangaList_each example_site (seriesItems example_site example_blank) \<lparr>list = []\<rparr>
       = \<lparr>list = []\<rparr>"
    using t h8 by simp
  have lst: "channelCalls (fst (getMangaList example_site ''3'' ''20'' None None))
       = [EndWithResult (MangaListResult \<lparr>list = []\<rparr>)]
     \<and> snd (getMangaList example_site ''3'' ''20'' None None) = None"
    using t h8 h11 h12 h13 by blast
  from h1 h2 h3 h4 h5 h6 h7 h8 h9 h10 h11 h12 h13 item chap data run each lst show ?thesis
    by simp
qed

text \<open>
  The script loop, one script further: the new text replaces the kept one when it is at
  least as long.
\<close>

lemma longestScript_Nil: "longestScript E [] = []"
  by (simp add: longestScript_def)

lemma longestScript_snoc:
  "longestScript E (scripts @ [el]) =
     (if length (text_of E [el]) \<ge> length (longestScript E scripts)
      then text_of E [el] else longestScript E scripts)"
  by (simp add: longestScript_def Let_def)

lemma longestScript_bound:
  "x \<in> set scripts \<Longrightarrow> length (text_of E [x]) \<le> length (longestScript E scripts)"
proof (induction scripts rule: rev_induct)
  case Nil
  then show ?case by simp
next
  case (snoc el scripts)
  show ?case
  proof (cases "x = el")
    case True
    then show ?thesis by (simp add: longestScript_snoc)
  next
    case False
    with snoc.prems have "x \<in> set scripts" by simp
    then have "length (text_of E [x]) \<le> length (longestScript E scripts)"
      by (rule snoc.IH)
    then show ?thesis by (simp add: longestScript_snoc)
  qed
qed

text \<open>
  C3, as the code has it. Among the script elements of the chapter document the selected
  text has the greatest length; when several scripts have that length, the last of them in
  document order is the one selected: no script before it is longer, and every script
  after it is strictly shorter. Without any script the selected text is empty.
\<close>

theorem last_longest_script_selected:
  "longestScript E [] = []
   \<and> (scripts \<noteq> [] \<longrightarrow>
        (\<exists>before el after.
           scripts = before @ el # after
           \<and> longestScript E scripts = text_of E [el]
           \<and> (\<forall>p \<in> set before. length (text_of E [p]) \<le> length (text_of E [el]))
           \<and> (\<forall>q \<in> set after. length (text_of E [q]) < length (text_of E [el]))))"
proof (intro conjI impI)
  show "longestScript E [] = []"
    by (rule longestScript_Nil)
next
  assume "scripts \<noteq> []"
  then show "\<exists>before el after.
           scripts = before @ el # after
           \<and> longestScript E scripts = text_of E [el]
           \<and> (\<forall>p \<in> set before. length (text_of E [p]) \<le> length (text_of E [el]))
           \<and> (\<forall>q \<in> set after. length (text_of E [q]) < length (text_of E [el]))"
  proof (induction scripts rule: rev_induct)
    case Nil
    then show ?case by simp
  next
    case (snoc x xs)
    show ?case
    proof (cases "length (text_of E [x]) \<ge> length (longestScript E xs)")
      case True
      then have sel: "longestScript E (xs @ [x]) = text_of E [x]"
        by (simp add: longestScript_snoc)
      have "\<forall>p \<in> set xs. length (text_of E [p]) \<le> length (text_of E [x])"
        using longestScript_bound [of _ xs E] True by (meson le_trans)
      with sel have "xs @ [x] = xs @ x # []
           \<and> longestScript E (xs @ [x]) = text_of E [x]
           \<and> (\<forall>p \<in> set xs. length (text_of E [p]) \<le> length (text_of E [x]))
           \<and> (\<forall>q \<in> set []. length (text_of E [q]) < length (text_of E [x]))"
        by simp
      then show ?thesis by blast
    next
      case False
      then have keep: "longestScript E (xs @ [x]) = longestScript E xs"
        by (simp add: longestScript_snoc)
      from False have "xs \<noteq> []"
        by (auto simp: longestScript_Nil)
      then obtain before el after where d: "xs = before @ el # after"
          and s: "longestScript E xs = text_of E [el]"
          and b: "\<forall>p \<in> set before. length (text_of E [p]) \<le> length (text_of E [el])"
          and a: "\<forall>q \<in> set after. length (text_of E [q]) < length (text_of E [el])"
        using snoc.IH by blast
      from False s have "length (text_of E [x]) < length (text_of E [el])"
        by simp
      with a have "\<forall>q \<in> set (after @ [x]). length (text_of E [q]) < length (text_of E [el])"
        by simp
      moreover from d have "xs @ [x] = before @ el # (after @ [x])"
        by simp
      ultimately show ?thesis
        using keep s b by metis
    qed
  qed
qed

theorem last_longest_script_selected_witness:
  "find_sel example_site ''script'' example_tie \<noteq> []
   \<and> find_sel example_site ''script'' example_tie
       = [Element ''script'' [] [TextNode ''ab''], Element ''script'' [] [TextNode ''cd'']]
   \<and> (\<exists>before el after.
         find_sel example_site ''script'' example_tie = before @ el # after
         \<and> longestScript example_site (find_sel example_site ''script'' example_tie)
             = text_of example_site [el]
         \<and> (\<forall>p \<in> set before.
               length (text_of example_site [p]) \<le> length (text_of example_site [el]))
         \<and> (\<forall>q \<in> set after.
               length (text_of example_site [q]) < length (text_of example_site [el])))
   \<and> longestScript example_site (find_sel example_site ''script'' example_tie) = ''cd''"
proof -
  have ne: "find_sel example_site ''script'' example_tie \<noteq> []"
    by code_simp
  have scripts: "find_sel example_site ''script'' example_tie
       = [Element ''script'' [] [TextNode ''ab''], Element ''script'' [] [TextNode ''cd'']]"
    by code_simp
  have sel: "longestScript example_site (find_sel example_site ''script'' example_tie) = ''cd''"
    by code_simp
  from last_longest_script_selected [of example_site "find_sel example_site ''script'' example_tie"] ne
  have "\<exists>before el after.
         find_sel example_site ''script'' example_tie = before @ el # after
         \<and> longestScript example_site (find_sel example_site ''script'' example_tie)
             = text_of example_site [el]
         \<and> (\<forall>p \<in> set before.
               length (text_of example_site [p]) \<le> length (text_of example_site [el]))
         \<and> (\<forall>q \<in> set after.
               length (text_of example_site [q]) < length (text_of example_site [el]))"
    by blast
  with ne scripts sel show ?thesis
    by blast
qed

text \<open>
  C3, as the specification words it, fails on a tie: of two scripts of length 2 the code
  keeps the text of the second, where the first encountered was to stay.
\<close>

theorem first_on_tie_counterexample:
  "find_sel example_site ''script'' example_tie
     = [Element ''script'' [] [TextNode ''ab''], Element ''script'' [] [TextNode ''cd'']]
   \<and> text_of example_site [Element ''script'' [] [TextNode ''ab'']] = ''ab''
   \<and> text_of example_site [Element ''script'' [] [TextNode ''cd'']] = ''cd''
   \<and> spec_longestScript example_site (find_sel example_site ''script'' example_tie) = ''ab''
   \<and> longestScript example_site (find_sel example_site ''script'' example_tie) = ''cd''
   \<and> longestScript example_site (find_sel example_site ''script'' example_tie)
       \<noteq> spec_longestScript example_site (find_sel example_site ''script'' example_tie)"
proof -
  have a: "find_sel example_site ''script'' example_tie
     = [Element ''script'' [] [TextNode ''ab''], Element ''script'' [] [TextNode ''cd'']]"
    by code_simp
  have b: "text_of example_site [Element ''script'' [] [TextNode ''ab'']] = ''ab''"
    by code_simp
  have c: "text_of example_site [Element ''script'' [] [TextNode ''cd'']] = ''cd''"
    by code_simp
  have d: "spec_longestScript example_site (find_sel example_site ''script'' example_tie) = ''ab''"
    by code_simp
  have e: "longestScript example_site (find_sel example_site ''script'' example_tie) = ''cd''"
    by code_simp
  from a b c d e show ?thesis
    by simp
qed

text \<open>
  The shared \<open>catch\<close> handler reads \<open>.message\<close> of whatever was thrown. An \<open>Error\<close>
  gives its message to \<open>endWithException\<close>; \<open>null\<close> and \<open>undefined\<close> have no
  properties, so the read itself throws inside the handler and no channel is called; any
  other value without a \<open>message\<close> reaches the channel as \<open>undefined\<close>.
\<close>

lemma catch_error_Error: "catch_error E (JError m) = ([EndWithException (JStr m)], None)"
  by (simp add: catch_error_def getProp_def)

lemma catch_error_null:
  "catch_error E JNull = ([], Some (JError (typeErrorMessage E JNull ''message'')))"
  by (simp add: catch_error_def getProp_def)

lemma catch_error_undefined:
  "catch_error E JUndefined = ([], Some (JError (typeErrorMessage E JUndefined ''message'')))"
  by (simp add: catch_error_def getProp_def)

lemma catch_error_string: "catch_error E (JStr s) = ([EndWithException JUndefined], None)"
  by (simp add: catch_error_def getProp_def)

lemma catch_error_one_channel:
  assumes "error \<noteq> JUndefined" and "error \<noteq> JNull"
  shows "\<exists>message. catch_error E error = ([EndWithException message], None)"
  using assms by (cases error) (simp_all add: catch_error_def getProp_def)

text \<open>
  Every operation is one \<open>fetch_try\<close> frame. As long as nothing on the way throws
  \<open>null\<close> or \<open>undefined\<close>, the frame calls exactly one of the two channels, once, and
  settles normally.
\<close>

lemma fetch_try_one_channel:
  assumes "\<And>e. httpRequest E req = Inl e \<Longrightarrow> e \<noteq> JUndefined \<and> e \<noteq> JNull"
    and "\<And>rawStr e. httpRequest E req = Inr rawStr \<Longrightarrow> body rawStr = Inl e
           \<Longrightarrow> e \<noteq> JUndefined \<and> e \<noteq> JNull"
  shows "length (channelCalls (fst (fetch_try E req body))) = 1
         \<and> snd (fetch_try E req body) = None"
proof (cases "httpRequest E req")
  case (Inl e)
  with assms(1) obtain message where "catch_error E e = ([EndWithException message], None)"
    using catch_error_one_channel by blast
  with Inl show ?thesis
    by (simp add: fetch_try_def)
next
  case (Inr rawStr)
  show ?thesis
  proof (cases "body rawStr")
    case (Inl e)
    with assms(2) Inr obtain message where "catch_error E e = ([EndWithException message], None)"
      using catch_error_one_channel by blast
    with Inr Inl show ?thesis
      by (simp add: fetch_try_def)
  next
    case (Inr result)
    with \<open>httpRequest E req = Inr rawStr\<close> show ?thesis
      by (simp add: fetch_try_def)
  qed
qed

lemma chapterImages_thrown:
  assumes "new_Function E (longestScript E (find_sel E ''script'' document) @ '';return imgHttps;'')
             = Inl error"
  shows "chapterImages E document = Inl error"
  using assms by (simp add: chapterImages_def Let_def)

lemma getChapterImageList_thrown_Error:
  assumes "httpRequest E (pageRequest chapterUrl) = Inr rawStr"
    and "parseHTML E (JStr rawStr) = Inr document"
    and "new_Function E (longestScript E (find_sel E ''script'' document) @ '';return imgHttps;'')
           = Inl (JError m)"
  shows "getChapterImageList E chapterUrl =
           ([HttpRequest (pageRequest chapterUrl), EndWithException (JStr m)], None)"
  using assms
  by (simp add: getChapterImageList_def fetch_try_def chapterImages_thrown catch_error_Error)

lemma getChapterImageList_thrown_null:
  assumes "httpRequest E (pageRequest chapterUrl) = Inr rawStr"
    and "parseHTML E (JStr rawStr) = Inr document"
    and "new_Function E (longestScript E (find_sel E ''script'' document) @ '';return imgHttps;'')
           = Inl JNull"
  shows "getChapterImageList E chapterUrl =
           ([HttpRequest (pageRequest chapterUrl)],
            Some (JError (typeErrorMessage E JNull ''message'')))"
  using assms
  by (simp add: getChapterImageList_def fetch_try_def chapterImages_def Let_def catch_error_null)

text \<open>
  C8. Exactly one of \<open>endWithResult\<close> and \<open>endWithException\<close> is to be called in every
  invocation. The images operation breaks this on the example chapter whose longest script
  is \<open>throw null\<close>: the evaluation throws \<open>null\<close>, the handler's read of \<open>.message\<close>
  throws in turn, and the invocation ends with the request as its only host call, in both
  variants of the file.
\<close>

theorem thrown_null_reaches_no_channel:
  "httpRequest example_site (pageRequest ''https://mto.to/chapter/43'') = Inr ''<throw>''
   \<and> parseHTML example_site (JStr ''<throw>'') = Inr example_throw
   \<and> longestScript example_site (find_sel example_site ''script'' example_throw) = ''throw null''
   \<and> new_Function example_site ''throw null;return imgHttps;'' = Inl JNull
   \<and> getChapterImageList example_site ''https://mto.to/chapter/43'' =
       ([HttpRequest (pageRequest ''https://mto.to/chapter/43'')],
        Some (JError (typeErrorMessage example_site JNull ''message'')))
   \<and> channelCalls (fst (getChapterImageList example_site ''https://mto.to/chapter/43'')) = []
   \<and> channelCalls (fst (getChapterImageList_cheerio example_site ''https://mto.to/chapter/43'')) = []"
proof -
  have h1: "httpRequest example_site (pageRequest ''https://mto.to/chapter/43'') = Inr ''<throw>''"
    by code_simp
  have h2: "parseHTML example_site (JStr ''<throw>'') = Inr example_throw"
    by code_simp
  have h3: "longestScript example_site (find_sel example_site ''script'' example_throw) = ''throw null''"
    by code_simp
  have h4: "new_Function example_site ''throw null;return imgHttps;'' = Inl JNull"
    by code_simp
  have run: "getChapterImageList example_site ''https://mto.to/chapter/43'' =
       ([HttpRequest (pageRequest ''https://mto.to/chapter/43'')],
        Some (JError (typeErrorMessage example_site JNull ''message'')))"
    by (rule getChapterImageList_thrown_null [OF h1 h2]) (simp add: h3 h4)
  have cheerio: "channelCalls (fst (getChapterImageList_cheerio example_site ''https://mto.to/chapter/43'')) = []"
    by code_simp
  from h1 h2 h3 h4 run cheerio show ?thesis
    by simp
qed

end
